theory Spec2Isabelle
  imports Complex_Main
begin

section \<open>Numeric model and errors\<close>

text \<open>
  The two classes of the repository, \<^verbatim>\<open>Flanger\<close> (src/Flanger.h) and \<^verbatim>\<open>PitchShifter\<close>
  (src/PitchShifter.h), are embedded as state-passing functions on records.

  \<^item> C++ \<^verbatim>\<open>float\<close> and \<^verbatim>\<open>double\<close> values are idealised as exact reals (type \<open>real\<close>): no
    rounding, no infinities, no NaN. A floating-point division whose divisor is zero is an
    error branch of the model (\<open>DivisionByZero\<close>), as is an integer remainder by zero.
  \<^item> C++ \<^verbatim>\<open>int\<close> is modelled as an unbounded \<open>int\<close>; \<^verbatim>\<open>/\<close> and \<^verbatim>\<open>%\<close> on ints truncate
    towards zero, and \<^verbatim>\<open>static_cast<int>\<close> of a float truncates towards zero.
  \<^item> Every array or buffer access outside its bounds, and every violated precondition
    (assertion) of the JUCE \<^verbatim>\<open>AudioBuffer\<close> class, is the error \<open>OutOfBounds\<close>.
\<close>

datatype error = DivisionByZero | OutOfBounds

definition then_do :: "error + 'a \<Rightarrow> ('a \<Rightarrow> error + 'b) \<Rightarrow> error + 'b" where
  "then_do m f = (case m of Inl e \<Rightarrow> Inl e | Inr x \<Rightarrow> f x)"

text \<open>Integer division and remainder of C++ (truncation towards zero).\<close>

definition tdiv :: "int \<Rightarrow> int \<Rightarrow> int" where
  "tdiv a b = sgn a * sgn b * (\<bar>a\<bar> div \<bar>b\<bar>)"

definition trem :: "int \<Rightarrow> int \<Rightarrow> int" where
  "trem a b = sgn a * (\<bar>a\<bar> mod \<bar>b\<bar>)"

definition c_rem :: "int \<Rightarrow> int \<Rightarrow> error + int" where
  "c_rem a b = (if b = 0 then Inl DivisionByZero else Inr (trem a b))"

definition fdiv :: "real \<Rightarrow> real \<Rightarrow> error + real" where
  "fdiv x y = (if y = 0 then Inl DivisionByZero else Inr (x / y))"

definition static_cast_int :: "real \<Rightarrow> int" where
  "static_cast_int x = (if 0 \<le> x then \<lfloor>x\<rfloor> else \<lceil>x\<rceil>)"

definition TP_RANGE :: real where
  "TP_RANGE = 0.010"

definition double_Pi :: real where
  "double_Pi = pi"

section \<open>The JUCE AudioBuffer\<close>

text \<open>
  \<^verbatim>\<open>juce::AudioBuffer<float>\<close> is a library class; the model follows its documented
  contract. A buffer is the list of its channel arrays, all of the same length. A pointer
  obtained from \<^verbatim>\<open>getReadPointer(channel, sampleIndex)\<close> or \<^verbatim>\<open>getWritePointer\<close> is
  the pair of the channel and the sample index; an access \<^verbatim>\<open>p[k]\<close> through it reads or
  writes the sample \<open>sampleIndex + k\<close> of that channel.
\<close>

type_synonym AudioBuffer = "real list list"

type_synonym pointer = "int \<times> int"

definition getNumSamples :: "AudioBuffer \<Rightarrow> int" where
  "getNumSamples b = (case b of [] \<Rightarrow> 0 | c # _ \<Rightarrow> int (length c))"

definition setSize :: "int \<Rightarrow> int \<Rightarrow> error + AudioBuffer" where
  "setSize newNumChannels newNumSamples =
     (if 0 \<le> newNumChannels \<and> 0 \<le> newNumSamples
      then Inr (replicate (nat newNumChannels) (replicate (nat newNumSamples) 0))
      else Inl OutOfBounds)"

definition clear :: "AudioBuffer \<Rightarrow> AudioBuffer" where
  "clear b = map (map (\<lambda>_. 0)) b"

definition getReadPointer :: "AudioBuffer \<Rightarrow> int \<Rightarrow> int \<Rightarrow> error + pointer" where
  "getReadPointer b channelNumber sampleIndex =
     (if 0 \<le> channelNumber \<and> channelNumber < int (length b)
         \<and> 0 \<le> sampleIndex \<and> sampleIndex < int (length (b ! nat channelNumber))
      then Inr (channelNumber, sampleIndex)
      else Inl OutOfBounds)"

definition getWritePointer :: "AudioBuffer \<Rightarrow> int \<Rightarrow> int \<Rightarrow> error + pointer" where
  "getWritePointer b channelNumber sampleIndex = getReadPointer b channelNumber sampleIndex"

definition getSample :: "AudioBuffer \<Rightarrow> int \<Rightarrow> int \<Rightarrow> error + real" where
  "getSample b channel sampleIndex =
     (if 0 \<le> channel \<and> channel < int (length b)
         \<and> 0 \<le> sampleIndex \<and> sampleIndex < int (length (b ! nat channel))
      then Inr (b ! nat channel ! nat sampleIndex)
      else Inl OutOfBounds)"

definition setSample :: "AudioBuffer \<Rightarrow> int \<Rightarrow> int \<Rightarrow> real \<Rightarrow> error + AudioBuffer" where
  "setSample b destChannel destSample newValue =
     (if 0 \<le> destChannel \<and> destChannel < int (length b)
         \<and> 0 \<le> destSample \<and> destSample < int (length (b ! nat destChannel))
      then Inr (b[nat destChannel := (b ! nat destChannel)[nat destSample := newValue]])
      else Inl OutOfBounds)"

text \<open>\<^verbatim>\<open>p[k]\<close> as an rvalue and as the target of an assignment.\<close>

definition deref :: "AudioBuffer \<Rightarrow> pointer \<Rightarrow> int \<Rightarrow> error + real" where
  "deref b p k = getSample b (fst p) (snd p + k)"

definition assign :: "AudioBuffer \<Rightarrow> pointer \<Rightarrow> int \<Rightarrow> real \<Rightarrow> error + AudioBuffer" where
  "assign b p k v = setSample b (fst p) (snd p + k) v"

text \<open>The floats readable from a pointer onwards, up to the end of its channel.\<close>

definition pointee :: "AudioBuffer \<Rightarrow> pointer \<Rightarrow> real list" where
  "pointee b p = drop (nat (snd p)) (b ! nat (fst p))"

text \<open>
  \<^verbatim>\<open>copyFromWithRamp (destChannel, destStartSample, source, numSamples, startGain, endGain)\<close>
  is only ever called with \<open>startGain = endGain\<close>, where it stores \<open>gain * source[i]\<close> at
  \<open>destStartSample + i\<close> for every \<open>i < numSamples\<close>. The argument \<open>source\<close> is the list of
  floats readable from the source pointer.
\<close>

definition copyFromWithRamp ::
  "AudioBuffer \<Rightarrow> int \<Rightarrow> int \<Rightarrow> real list \<Rightarrow> int \<Rightarrow> real \<Rightarrow> error + AudioBuffer" where
  "copyFromWithRamp b destChannel destStartSample source numSamples gain =
     (if 0 \<le> destChannel \<and> destChannel < int (length b)
         \<and> 0 \<le> destStartSample \<and> 0 \<le> numSamples
         \<and> destStartSample + numSamples \<le> int (length (b ! nat destChannel))
         \<and> numSamples \<le> int (length source)
      then Inr (b[nat destChannel :=
                    take (nat destStartSample) (b ! nat destChannel)
                    @ map (\<lambda>x. gain * x) (take (nat numSamples) source)
                    @ drop (nat (destStartSample + numSamples)) (b ! nat destChannel)])
      else Inl OutOfBounds)"

text \<open>
  The body shared, word for word, by \<^verbatim>\<open>Flanger::fillDelaybuffer\<close> and
  \<^verbatim>\<open>PitchShifter::fillDelaybuffer\<close>: it acts on the member \<^verbatim>\<open>delayBuffer\<close> and reads
  the member \<^verbatim>\<open>delayBufferWritePosition\<close>.
\<close>

definition fillDelaybuffer_body ::
  "int \<Rightarrow> int \<Rightarrow> int \<Rightarrow> real list \<Rightarrow> real \<Rightarrow> int \<Rightarrow> AudioBuffer \<Rightarrow> error + AudioBuffer" where
  "fillDelaybuffer_body bufferLength channel delayBufferLength bufferData gain
       delayBufferWritePosition delayBuffer =
     (if delayBufferLength > bufferLength + delayBufferWritePosition
      then copyFromWithRamp delayBuffer channel delayBufferWritePosition bufferData bufferLength gain
      else
        (let delayBufferRemaining = delayBufferLength - delayBufferWritePosition in
         then_do (copyFromWithRamp delayBuffer channel delayBufferWritePosition bufferData
                    delayBufferRemaining gain) (\<lambda>delayBuffer1.
         copyFromWithRamp delayBuffer1 channel 0 (drop (nat delayBufferRemaining) bufferData)
           (bufferLength - delayBufferRemaining) gain)))"

section \<open>The flanger (src/Flanger.h)\<close>

record Flanger =
  sinePhase :: "real list"
  sinefrequency :: real
  flangerDepth :: real
  feedbackLevel :: real
  sampleRate :: real
  delayBufferWritePosition :: int
  feedbackBufferWritePosition :: int
  transposition_range :: int
  delayBufferSize :: int
  delayBuffer :: AudioBuffer
  feedbackBuffer :: AudioBuffer

text \<open>
  The object after its constructor. The members \<^verbatim>\<open>transposition_range\<close> and
  \<^verbatim>\<open>delayBufferSize\<close> have no initialiser: the two arguments stand for their
  indeterminate values.
\<close>

definition Flanger_new :: "int \<Rightarrow> int \<Rightarrow> Flanger" where
  "Flanger_new tr sz =
     \<lparr> sinePhase = [0, 0], sinefrequency = 0, flangerDepth = 0, feedbackLevel = 0,
       sampleRate = 44100, delayBufferWritePosition = 0, feedbackBufferWritePosition = 0,
       transposition_range = tr, delayBufferSize = sz, delayBuffer = [], feedbackBuffer = [] \<rparr>"

definition Flanger_initialize :: "int \<Rightarrow> real \<Rightarrow> Flanger \<Rightarrow> error + Flanger" where
  "Flanger_initialize SamplesPerBlockExpected SampleRate s =
     (let s1 = s\<lparr>transposition_range := static_cast_int (TP_RANGE * SampleRate)\<rparr>;
          s2 = s1\<lparr>delayBufferSize := SamplesPerBlockExpected + transposition_range s1\<rparr> in
      then_do (setSize 2 (delayBufferSize s2)) (\<lambda>b.
      then_do (setSize 2 (delayBufferSize s2)) (\<lambda>fb.
      Inr (s2\<lparr>delayBuffer := clear b, feedbackBuffer := clear fb\<rparr>))))"

definition Flanger_fillDelaybuffer ::
  "int \<Rightarrow> int \<Rightarrow> int \<Rightarrow> real list \<Rightarrow> real \<Rightarrow> Flanger \<Rightarrow> error + Flanger" where
  "Flanger_fillDelaybuffer bufferLength channel delayBufferLength bufferData gain s =
     then_do (fillDelaybuffer_body bufferLength channel delayBufferLength bufferData gain
                (delayBufferWritePosition s) (delayBuffer s)) (\<lambda>b.
     Inr (s\<lparr>delayBuffer := b\<rparr>))"

definition lfo_sinewave :: "int \<Rightarrow> int \<Rightarrow> Flanger \<Rightarrow> error + (real \<times> Flanger)" where
  "lfo_sinewave maxDelayInSamples channel s =
     (if 0 \<le> channel \<and> channel < int (length (sinePhase s)) then
        then_do (fdiv (sinefrequency s) (sampleRate s)) (\<lambda>inc.
        let p = sinePhase s ! nat channel + inc;
            p1 = (if p \<ge> 1 then p - 1 else p)
        in Inr (real_of_int (tdiv maxDelayInSamples 2) * (sin (2 * double_Pi * p1) + 1),
                s\<lparr>sinePhase := (sinePhase s)[nat channel := p1]\<rparr>))
      else Inl OutOfBounds)"

definition Flanger_adjustDelayBufferWritePosition :: "int \<Rightarrow> Flanger \<Rightarrow> error + Flanger" where
  "Flanger_adjustDelayBufferWritePosition numsamplesInBuffer s =
     then_do (c_rem (delayBufferWritePosition s + numsamplesInBuffer) (delayBufferSize s)) (\<lambda>w.
     Inr (s\<lparr>delayBufferWritePosition := w\<rparr>))"

definition adjustFeedBackBufferWritePosition :: "int \<Rightarrow> Flanger \<Rightarrow> error + Flanger" where
  "adjustFeedBackBufferWritePosition numsamplesInBuffer s =
     then_do (c_rem (feedbackBufferWritePosition s + numsamplesInBuffer) (delayBufferSize s)) (\<lambda>w.
     Inr (s\<lparr>feedbackBufferWritePosition := w\<rparr>))"

definition setDepth :: "real \<Rightarrow> Flanger \<Rightarrow> Flanger" where
  "setDepth depth s = s\<lparr>flangerDepth := depth\<rparr>"

definition setFeedback :: "real \<Rightarrow> Flanger \<Rightarrow> Flanger" where
  "setFeedback feedback s = s\<lparr>feedbackLevel := feedback\<rparr>"

definition setLFO :: "real \<Rightarrow> Flanger \<Rightarrow> Flanger" where
  "setLFO rate s = s\<lparr>sinefrequency := rate\<rparr>"

text \<open>
  The linear blend \<^verbatim>\<open>(1.0 - fractionalDelay) * p[i1] + fractionalDelay * p[i2]\<close> that the
  loop body of \<^verbatim>\<open>Flanger::process\<close> spells out for the delay and the feedback buffer.
\<close>

definition blend :: "AudioBuffer \<Rightarrow> pointer \<Rightarrow> real \<Rightarrow> int \<Rightarrow> int \<Rightarrow> error + real" where
  "blend b p fractionalDelay i1 i2 =
     then_do (deref b p i1) (\<lambda>x1.
     then_do (deref b p i2) (\<lambda>x2.
     Inr ((1 - fractionalDelay) * x1 + fractionalDelay * x2)))"

text \<open>
  One iteration of the loop of \<^verbatim>\<open>Flanger::process\<close>. The host's buffer \<open>inbuffer\<close> is
  processed in place (\<open>readBuffer\<close> and \<open>writeBuffer\<close> point to the same samples), so it
  is part of the state that the loop threads through. The local variable
  \<^verbatim>\<open>delayBufferSize\<close> of \<^verbatim>\<open>process\<close>, which hides the member of that name, is
  written \<open>delayBufferSize'\<close>.
\<close>

definition Flanger_process_sample ::
  "int \<Rightarrow> int \<Rightarrow> int \<Rightarrow> real \<Rightarrow> pointer \<Rightarrow> pointer \<Rightarrow> int \<Rightarrow> int
     \<Rightarrow> AudioBuffer \<times> Flanger \<Rightarrow> error + (AudioBuffer \<times> Flanger)" where
  "Flanger_process_sample startSample maxDelayInSamples channel DeviceGain writeBuffer readBuffer
       delayBufferSize' sample st =
     (let inbuffer = fst st; s = snd st in
      then_do (getReadPointer (delayBuffer s) channel startSample) (\<lambda>delay.
      then_do (getReadPointer (feedbackBuffer s) channel startSample) (\<lambda>feedback.
      then_do (lfo_sinewave maxDelayInSamples channel s) (\<lambda>r.
      let delayTime = fst r; s1 = snd r;
          delayTimeInSamples = static_cast_int delayTime;
          fractionalDelay = delayTime - real_of_int delayTimeInSamples in
      then_do (c_rem (delayBufferSize' + delayBufferWritePosition s1 - delayTimeInSamples)
                 delayBufferSize') (\<lambda>readPosition1.
      then_do (c_rem (delayBufferSize' + delayBufferWritePosition s1 - delayTimeInSamples - 1)
                 delayBufferSize') (\<lambda>readPosition2.
      then_do (c_rem (readPosition1 + sample) delayBufferSize') (\<lambda>i1.
      then_do (c_rem (readPosition2 + sample) delayBufferSize') (\<lambda>i2.
      then_do (blend (delayBuffer s1) delay fractionalDelay i1 i2) (\<lambda>wet.
      then_do (blend (feedbackBuffer s1) feedback fractionalDelay i1 i2) (\<lambda>fed.
      then_do (if feedbackLevel s1 = 0
               then then_do (deref inbuffer readBuffer sample) (\<lambda>dry.
                      Inr (dry + flangerDepth s1 * wet + feedbackLevel s1 * fed))
               else Inr (flangerDepth s1 * wet + feedbackLevel s1 * fed)) (\<lambda>output.
      then_do (c_rem (feedbackBufferWritePosition s1 + sample) delayBufferSize') (\<lambda>fbpos.
      then_do (setSample (feedbackBuffer s1) channel fbpos output) (\<lambda>fb.
      then_do (assign inbuffer writeBuffer sample (DeviceGain * output)) (\<lambda>inbuffer1.
      Inr (inbuffer1, s1\<lparr>feedbackBuffer := fb\<rparr>)))))))))))))))"

text \<open>
  The loop \<^verbatim>\<open>for (auto sample = 0; sample < numSamples; ++sample)\<close>: the first argument
  counts the iterations still to run, the argument \<open>sample\<close> is the loop variable.
\<close>

fun Flanger_process_loop ::
  "nat \<Rightarrow> int \<Rightarrow> int \<Rightarrow> int \<Rightarrow> real \<Rightarrow> pointer \<Rightarrow> pointer \<Rightarrow> int \<Rightarrow> int
     \<Rightarrow> AudioBuffer \<times> Flanger \<Rightarrow> error + (AudioBuffer \<times> Flanger)" where
  "Flanger_process_loop 0 startSample maxDelayInSamples channel DeviceGain writeBuffer readBuffer
       delayBufferSize' sample st = Inr st"
| "Flanger_process_loop (Suc n) startSample maxDelayInSamples channel DeviceGain writeBuffer
       readBuffer delayBufferSize' sample st =
     then_do (Flanger_process_sample startSample maxDelayInSamples channel DeviceGain writeBuffer
                readBuffer delayBufferSize' sample st)
       (Flanger_process_loop n startSample maxDelayInSamples channel DeviceGain writeBuffer
          readBuffer delayBufferSize' (sample + 1))"

definition Flanger_process ::
  "AudioBuffer \<Rightarrow> int \<Rightarrow> int \<Rightarrow> int \<Rightarrow> int \<Rightarrow> real \<Rightarrow> Flanger
     \<Rightarrow> error + (AudioBuffer \<times> Flanger)" where
  "Flanger_process inbuffer startSample numSamples maxDelayInSamples channel DeviceGain s =
     then_do (getWritePointer inbuffer channel startSample) (\<lambda>writeBuffer.
     then_do (getReadPointer inbuffer channel startSample) (\<lambda>readBuffer.
     let delayBufferSize' = getNumSamples (delayBuffer s) in
     then_do (Flanger_fillDelaybuffer (getNumSamples inbuffer) channel delayBufferSize'
                (pointee inbuffer readBuffer) 1 s) (\<lambda>s1.
     Flanger_process_loop (nat numSamples) startSample maxDelayInSamples channel DeviceGain
       writeBuffer readBuffer delayBufferSize' 0 (inbuffer, s1))))"

section \<open>The pitch shifter (src/PitchShifter.h)\<close>

text \<open>
  The members that \<^verbatim>\<open>PitchShifter\<close> names like \<^verbatim>\<open>Flanger\<close> does carry the prefix
  \<open>ps_\<close> here, and so do its member functions of the same name.
\<close>

record PitchShifter =
  sawtoothPhase1 :: "real list"
  sawtoothPhase2 :: "real list"
  sawtoothFrequency :: real
  ps_sampleRate :: real
  ps_delayBufferWritePosition :: int
  ps_transposition_range :: int
  ps_delayBufferSize :: int
  pitchUporDown :: bool
  ps_delayBuffer :: AudioBuffer

definition PitchShifter_new :: "int \<Rightarrow> int \<Rightarrow> PitchShifter" where
  "PitchShifter_new tr sz =
     \<lparr> sawtoothPhase1 = [0, 0], sawtoothPhase2 = [0.5, 0.5], sawtoothFrequency = 0,
       ps_sampleRate = 44100, ps_delayBufferWritePosition = 0, ps_transposition_range = tr,
       ps_delayBufferSize = sz, pitchUporDown = False, ps_delayBuffer = [] \<rparr>"

definition PitchShifter_initialize :: "int \<Rightarrow> real \<Rightarrow> PitchShifter \<Rightarrow> error + PitchShifter" where
  "PitchShifter_initialize SamplesPerBlockExpected SampleRate s =
     (let s1 = s\<lparr>ps_transposition_range := static_cast_int (TP_RANGE * SampleRate)\<rparr>;
          s2 = s1\<lparr>ps_delayBufferSize := SamplesPerBlockExpected + ps_transposition_range s1\<rparr> in
      then_do (setSize 2 (ps_delayBufferSize s2)) (\<lambda>b.
      Inr (s2\<lparr>ps_delayBuffer := clear b\<rparr>)))"

definition PitchShifter_fillDelaybuffer ::
  "int \<Rightarrow> int \<Rightarrow> int \<Rightarrow> real list \<Rightarrow> real \<Rightarrow> PitchShifter \<Rightarrow> error + PitchShifter" where
  "PitchShifter_fillDelaybuffer bufferLength channel delayBufferLength bufferData gain s =
     then_do (fillDelaybuffer_body bufferLength channel delayBufferLength bufferData gain
                (ps_delayBufferWritePosition s) (ps_delayBuffer s)) (\<lambda>b.
     Inr (s\<lparr>ps_delayBuffer := b\<rparr>))"

definition sawtooth1 :: "int \<Rightarrow> int \<Rightarrow> PitchShifter \<Rightarrow> error + (real \<times> PitchShifter)" where
  "sawtooth1 maxDelayInSamples channel s =
     then_do (fdiv (ps_sampleRate s) (sawtoothFrequency s)) (\<lambda>samplespercycle.
     then_do (fdiv 1 samplespercycle) (\<lambda>inc.
     if 0 \<le> channel \<and> channel < int (length (sawtoothPhase1 s)) then
       let p = sawtoothPhase1 s ! nat channel + inc;
           p1 = (if p \<ge> 1 then p - 1 else p);
           s1 = s\<lparr>sawtoothPhase1 := (sawtoothPhase1 s)[nat channel := p1]\<rparr>
       in if pitchUporDown s = False then Inr (real_of_int maxDelayInSamples * p1, s1)
          else Inr (real_of_int maxDelayInSamples * (1 - p1), s1)
     else Inl OutOfBounds))"

definition sawtooth2 :: "int \<Rightarrow> int \<Rightarrow> PitchShifter \<Rightarrow> error + (real \<times> PitchShifter)" where
  "sawtooth2 maxDelayInSamples channel s =
     then_do (fdiv (ps_sampleRate s) (sawtoothFrequency s)) (\<lambda>samplespercycle.
     then_do (fdiv 1 samplespercycle) (\<lambda>inc.
     if 0 \<le> channel \<and> channel < int (length (sawtoothPhase2 s)) then
       let p = sawtoothPhase2 s ! nat channel + inc;
           p1 = (if p \<ge> 1 then p - 1 else p);
           s1 = s\<lparr>sawtoothPhase2 := (sawtoothPhase2 s)[nat channel := p1]\<rparr>
       in if pitchUporDown s = False then Inr (real_of_int maxDelayInSamples * p1, s1)
          else Inr (real_of_int maxDelayInSamples * (1 - p1), s1)
     else Inl OutOfBounds))"

definition PitchShifter_adjustDelayBufferWritePosition ::
  "int \<Rightarrow> PitchShifter \<Rightarrow> error + PitchShifter" where
  "PitchShifter_adjustDelayBufferWritePosition numsamplesInBuffer s =
     then_do (c_rem (ps_delayBufferWritePosition s + numsamplesInBuffer) (ps_delayBufferSize s))
       (\<lambda>w. Inr (s\<lparr>ps_delayBufferWritePosition := w\<rparr>))"

definition setUp :: "PitchShifter \<Rightarrow> PitchShifter" where
  "setUp s = s\<lparr>pitchUporDown := True\<rparr>"

definition setDown :: "PitchShifter \<Rightarrow> PitchShifter" where
  "setDown s = s\<lparr>pitchUporDown := False\<rparr>"

definition setLevel :: "real \<Rightarrow> PitchShifter \<Rightarrow> PitchShifter" where
  "setLevel rate s = s\<lparr>sawtoothFrequency := rate\<rparr>"

text \<open>
  The crossfade gain \<^verbatim>\<open>sin(double_Pi * delaySamples / maxDelayInSamples)\<close> of one
  delay line.
\<close>

definition crossfade_gain :: "real \<Rightarrow> int \<Rightarrow> error + real" where
  "crossfade_gain delaySamples maxDelayInSamples =
     then_do (fdiv (double_Pi * delaySamples) (real_of_int maxDelayInSamples)) (\<lambda>x. Inr (sin x))"

text \<open>One iteration of the loop of \<^verbatim>\<open>PitchShifter::process\<close>.\<close>

definition PitchShifter_process_sample ::
  "int \<Rightarrow> int \<Rightarrow> int \<Rightarrow> real \<Rightarrow> pointer \<Rightarrow> int \<Rightarrow> int
     \<Rightarrow> AudioBuffer \<times> PitchShifter \<Rightarrow> error + (AudioBuffer \<times> PitchShifter)" where
  "PitchShifter_process_sample startSample maxDelayInSamples channel deviceGain writeBuffer
       delayBufferSize' sample st =
     (let inbuffer = fst st; s = snd st in
      then_do (getReadPointer (ps_delayBuffer s) channel startSample) (\<lambda>delay.
      then_do (sawtooth1 maxDelayInSamples channel s) (\<lambda>r1.
      then_do (sawtooth2 maxDelayInSamples channel (snd r1)) (\<lambda>r2.
      let delaySamples1 = fst r1; delaySamples2 = fst r2; s2 = snd r2;
          delayTime1 = static_cast_int delaySamples1;
          delayTime2 = static_cast_int delaySamples2 in
      then_do (c_rem (delayBufferSize' + ps_delayBufferWritePosition s2 - delayTime1)
                 delayBufferSize') (\<lambda>readPosition1.
      then_do (c_rem (delayBufferSize' + ps_delayBufferWritePosition s2 - delayTime2)
                 delayBufferSize') (\<lambda>readPosition2.
      then_do (crossfade_gain delaySamples1 maxDelayInSamples) (\<lambda>gain1.
      then_do (crossfade_gain delaySamples2 maxDelayInSamples) (\<lambda>gain2.
      then_do (c_rem (readPosition1 + sample) delayBufferSize') (\<lambda>i1.
      then_do (deref (ps_delayBuffer s2) delay i1) (\<lambda>x1.
      then_do (c_rem (readPosition2 + sample) delayBufferSize') (\<lambda>i2.
      then_do (deref (ps_delayBuffer s2) delay i2) (\<lambda>x2.
      then_do (assign inbuffer writeBuffer sample (deviceGain * (gain1 * x1 + gain2 * x2)))
        (\<lambda>inbuffer1. Inr (inbuffer1, s2))))))))))))))"

fun PitchShifter_process_loop ::
  "nat \<Rightarrow> int \<Rightarrow> int \<Rightarrow> int \<Rightarrow> real \<Rightarrow> pointer \<Rightarrow> int \<Rightarrow> int
     \<Rightarrow> AudioBuffer \<times> PitchShifter \<Rightarrow> error + (AudioBuffer \<times> PitchShifter)" where
  "PitchShifter_process_loop 0 startSample maxDelayInSamples channel deviceGain writeBuffer
       delayBufferSize' sample st = Inr st"
| "PitchShifter_process_loop (Suc n) startSample maxDelayInSamples channel deviceGain writeBuffer
       delayBufferSize' sample st =
     then_do (PitchShifter_process_sample startSample maxDelayInSamples channel deviceGain
                writeBuffer delayBufferSize' sample st)
       (PitchShifter_process_loop n startSample maxDelayInSamples channel deviceGain writeBuffer
          delayBufferSize' (sample + 1))"

definition PitchShifter_process ::
  "AudioBuffer \<Rightarrow> int \<Rightarrow> int \<Rightarrow> int \<Rightarrow> int \<Rightarrow> real \<Rightarrow> PitchShifter
     \<Rightarrow> error + (AudioBuffer \<times> PitchShifter)" where
  "PitchShifter_process inbuffer startSample numSamples maxDelayInSamples channel deviceGain s =
     then_do (getWritePointer inbuffer channel startSample) (\<lambda>writeBuffer.
     let delayBufferSize' = getNumSamples (ps_delayBuffer s) in
     then_do (getReadPointer inbuffer channel startSample) (\<lambda>readBuffer.
     then_do (PitchShifter_fillDelaybuffer (getNumSamples inbuffer) channel delayBufferSize'
                (pointee inbuffer readBuffer) 1 s) (\<lambda>s1.
     PitchShifter_process_loop (nat numSamples) startSample maxDelayInSamples channel deviceGain
       writeBuffer delayBufferSize' 0 (inbuffer, s1))))"

section \<open>Notions used to state the properties\<close>

text \<open>
  The wrap of a phase, as the three modulators write it:
  \<^verbatim>\<open>if (phase >= 1) phase -= 1\<close>.
\<close>

definition wrap_phase :: "real \<Rightarrow> real" where
  "wrap_phase p = (if p \<ge> 1 then p - 1 else p)"






section \<open>Example states\<close>

text \<open>
  A flanger with a delay buffer of four samples per channel, as left by
  \<^verbatim>\<open>initialize(2, 200)\<close>, three committed samples and some earlier input in the
  delay line of channel 0; and a pitch shifter in the same situation.
\<close>

definition flanger_example :: Flanger where
  "flanger_example =
     \<lparr> sinePhase = [0, 0], sinefrequency = 3675, flangerDepth = 1/2, feedbackLevel = 0,
       sampleRate = 44100, delayBufferWritePosition = 3, feedbackBufferWritePosition = 3,
       transposition_range = 2, delayBufferSize = 4,
       delayBuffer = [[1, 2, 3, 4], [0, 0, 0, 0]], feedbackBuffer = [[0, 0, 0, 0], [0, 0, 0, 0]] \<rparr>"

definition pitchshifter_example :: PitchShifter where
  "pitchshifter_example =
     \<lparr> sawtoothPhase1 = [0, 0], sawtoothPhase2 = [0.5, 0.5], sawtoothFrequency = 22050,
       ps_sampleRate = 44100, ps_delayBufferWritePosition = 3, ps_transposition_range = 2,
       ps_delayBufferSize = 4, pitchUporDown = False,
       ps_delayBuffer = [[1, 2, 3, 4], [0, 0, 0, 0]] \<rparr>"

text \<open>
  The two objects right after \<^verbatim>\<open>initialize(2, 200)\<close> on a newly constructed object
  (whose two uninitialised members are taken to be 0).
\<close>

definition pitchshifter_fresh :: PitchShifter where
  "pitchshifter_fresh =
     \<lparr> sawtoothPhase1 = [0, 0], sawtoothPhase2 = [0.5, 0.5], sawtoothFrequency = 0,
       ps_sampleRate = 44100, ps_delayBufferWritePosition = 0, ps_transposition_range = 2,
       ps_delayBufferSize = 4, pitchUporDown = False,
       ps_delayBuffer = [[0, 0, 0, 0], [0, 0, 0, 0]] \<rparr>"

definition flanger_fresh :: Flanger where
  "flanger_fresh =
     \<lparr> sinePhase = [0, 0], sinefrequency = 0, flangerDepth = 0, feedbackLevel = 0,
       sampleRate = 44100, delayBufferWritePosition = 0, feedbackBufferWritePosition = 0,
       transposition_range = 2, delayBufferSize = 4,
       delayBuffer = [[0, 0, 0, 0], [0, 0, 0, 0]], feedbackBuffer = [[0, 0, 0, 0], [0, 0, 0, 0]] \<rparr>"

section \<open>Basic lemmas\<close>

lemma then_do_Inl [simp]: "then_do (Inl e) f = Inl e" by (simp add: then_do_def)
lemma then_do_Inr [simp]: "then_do (Inr x) f = f x" by (simp add: then_do_def)
lemma then_do_eq_Inr: "then_do m f = Inr y \<longleftrightarrow> (\<exists>x. m = Inr x \<and> f x = Inr y)"
  by (cases m) simp_all

lemma splice_nth:
  assumes "a + m \<le> length xs" "m \<le> length src" "j < length xs"
  shows "(take a xs @ map f (take m src) @ drop (a + m) xs) ! j =
           (if a \<le> j \<and> j < a + m then f (src ! (j - a)) else xs ! j)"
  using assms by (auto simp: nth_append min_def)

lemma splice_length:
  assumes "a + m \<le> length xs" "m \<le> length src"
  shows "length (take a xs @ map f (take m src) @ drop (a + m) xs) = length xs"
  using assms by (auto simp: min_def)

lemma copyFromWithRamp_Inr:
  assumes "copyFromWithRamp b ch st src n g = Inr b'"
  shows "0 \<le> ch" "ch < int (length b)" "0 \<le> st" "0 \<le> n" "st + n \<le> int (length (b ! nat ch))"
    "n \<le> int (length src)" "length b' = length b" "length (b' ! nat ch) = length (b ! nat ch)"
    "\<And>c. c \<noteq> nat ch \<Longrightarrow> b' ! c = b ! c"
    "\<And>j. j < length (b ! nat ch) \<Longrightarrow>
       b' ! nat ch ! j = (if nat st \<le> j \<and> j < nat st + nat n then g * src ! (j - nat st) else b ! nat ch ! j)"
proof -
  from assms have c: "0 \<le> ch" "ch < int (length b)" "0 \<le> st" "0 \<le> n"
    "st + n \<le> int (length (b ! nat ch))" "n \<le> int (length src)"
    by (auto simp: copyFromWithRamp_def split: if_splits)
  then show "0 \<le> ch" "ch < int (length b)" "0 \<le> st" "0 \<le> n"
    "st + n \<le> int (length (b ! nat ch))" "n \<le> int (length src)" by auto
  from c have e: "nat (st + n) = nat st + nat n" by (simp add: nat_add_distrib)
  from c have l: "nat st + nat n \<le> length (b ! nat ch)" "nat n \<le> length src" "nat ch < length b"
    by linarith+
  from assms c have b': "b' = b[nat ch := take (nat st) (b ! nat ch) @ map (\<lambda>x. g * x) (take (nat n) src)
       @ drop (nat st + nat n) (b ! nat ch)]"
    by (simp add: copyFromWithRamp_def e)
  show "length b' = length b" by (simp add: b')
  show "length (b' ! nat ch) = length (b ! nat ch)"
    using l by (simp add: b' splice_length del: length_append)
  show "\<And>c. c \<noteq> nat ch \<Longrightarrow> b' ! c = b ! c" by (simp add: b')
  show "\<And>j. j < length (b ! nat ch) \<Longrightarrow>
       b' ! nat ch ! j = (if nat st \<le> j \<and> j < nat st + nat n then g * src ! (j - nat st) else b ! nat ch ! j)"
    using l by (simp add: b' splice_nth del: append_assoc)
qed

lemma fillDelaybuffer_body_content:
  assumes fill: "fillDelaybuffer_body len ch sz data g wp b = Inr b'"
    and cap: "len \<le> sz"
  shows "length b' = length b"
    and "length (b' ! nat ch) = length (b ! nat ch)"
    and "\<And>c. c \<noteq> nat ch \<Longrightarrow> b' ! c = b ! c"
    and "\<And>i. 0 \<le> i \<Longrightarrow> i < len \<Longrightarrow> b' ! nat ch ! nat ((wp + i) mod sz) = g * data ! nat i"
    and "\<And>j. 0 \<le> j \<Longrightarrow> j < int (length (b ! nat ch)) \<Longrightarrow>
           (\<forall>i. 0 \<le> i \<and> i < len \<longrightarrow> j \<noteq> (wp + i) mod sz) \<Longrightarrow>
           b' ! nat ch ! nat j = b ! nat ch ! nat j"
    and "0 \<le> wp" and "0 \<le> len" and "len \<le> int (length data)"
    and "wp \<le> sz"
proof -
  have "length b' = length b \<and> length (b' ! nat ch) = length (b ! nat ch) \<and>
    (\<forall>c. c \<noteq> nat ch \<longrightarrow> b' ! c = b ! c) \<and>
    (\<forall>i. 0 \<le> i \<longrightarrow> i < len \<longrightarrow> b' ! nat ch ! nat ((wp + i) mod sz) = g * data ! nat i) \<and>
    (\<forall>j. 0 \<le> j \<longrightarrow> j < int (length (b ! nat ch)) \<longrightarrow>
           (\<forall>i. 0 \<le> i \<and> i < len \<longrightarrow> j \<noteq> (wp + i) mod sz) \<longrightarrow>
           b' ! nat ch ! nat j = b ! nat ch ! nat j) \<and> 0 \<le> wp \<and> 0 \<le> len
     \<and> len \<le> int (length data) \<and> wp \<le> sz" (is ?G)
  proof (cases "sz > len + wp")
    case True
    with fill have c: "copyFromWithRamp b ch wp data len g = Inr b'"
      by (simp add: fillDelaybuffer_body_def)
    note f = copyFromWithRamp_Inr[OF c]
    have m: "\<And>i. 0 \<le> i \<Longrightarrow> i < len \<Longrightarrow> (wp + i) mod sz = wp + i"
      using True f(3) by simp
    have 1: "\<And>i. 0 \<le> i \<Longrightarrow> i < len \<Longrightarrow> b' ! nat ch ! nat ((wp + i) mod sz) = g * data ! nat i"
    proof -
      fix i :: int assume i: "0 \<le> i" "i < len"
      have "nat (wp + i) < length (b ! nat ch)" using f(3,5) i by linarith
      from f(10)[OF this] i f(3) show "b' ! nat ch ! nat ((wp + i) mod sz) = g * data ! nat i"
        by (simp add: m nat_add_distrib)
    qed
    have 2: "\<And>j. 0 \<le> j \<Longrightarrow> j < int (length (b ! nat ch)) \<Longrightarrow>
           (\<forall>i. 0 \<le> i \<and> i < len \<longrightarrow> j \<noteq> (wp + i) mod sz) \<Longrightarrow>
           b' ! nat ch ! nat j = b ! nat ch ! nat j"
    proof -
      fix j :: int assume j: "0 \<le> j" "j < int (length (b ! nat ch))"
        and nw: "\<forall>i. 0 \<le> i \<and> i < len \<longrightarrow> j \<noteq> (wp + i) mod sz"
      have "\<not> (nat wp \<le> nat j \<and> nat j < nat wp + nat len)"
      proof
        assume a: "nat wp \<le> nat j \<and> nat j < nat wp + nat len"
        then have "0 \<le> j - wp \<and> j - wp < len" using f(3,4) j by linarith
        with nw have "j \<noteq> (wp + (j - wp)) mod sz" by blast
        moreover have "(wp + (j - wp)) mod sz = wp + (j - wp)"
          using m \<open>0 \<le> j - wp \<and> j - wp < len\<close> by blast
        ultimately show False by simp
      qed
      moreover have lt: "nat j < length (b ! nat ch)" using j by linarith
      ultimately show "b' ! nat ch ! nat j = b ! nat ch ! nat j" using f(10)[OF lt] by auto
    qed
    have 3: "0 \<le> wp" "0 \<le> len" "len \<le> int (length data)" "wp \<le> sz"
      using f(3,4,6) True by simp_all
    show ?thesis
      by (intro conjI allI impI) (fact f(7) f(8) 3 | erule f(9) | erule (1) 1 | erule (2) 2)+
  next
    case False
    define r where "r = sz - wp"
    from fill False obtain b1 where c1: "copyFromWithRamp b ch wp data r g = Inr b1"
      and c2: "copyFromWithRamp b1 ch 0 (drop (nat r) data) (len - r) g = Inr b'"
      by (auto simp: fillDelaybuffer_body_def Let_def then_do_eq_Inr r_def)
    note f1 = copyFromWithRamp_Inr[OF c1]
    note f2 = copyFromWithRamp_Inr[OF c2]
    have L: "length (b1 ! nat ch) = length (b ! nat ch)" by (rule f1(8))
    have 1: "\<And>i. 0 \<le> i \<Longrightarrow> i < len \<Longrightarrow> b' ! nat ch ! nat ((wp + i) mod sz) = g * data ! nat i"
    proof -
      fix i :: int assume i: "0 \<le> i" "i < len"
      show "b' ! nat ch ! nat ((wp + i) mod sz) = g * data ! nat i"
      proof (cases "i < r")
        case True
        then have m: "(wp + i) mod sz = wp + i" using i f1(3) by (simp add: r_def)
        have lt: "nat (wp + i) < length (b ! nat ch)" using f1(3,5) i True by linarith
        have nlow: "\<not> nat (wp + i) < nat (len - r)" using cap i f1(3) f2(4) by (simp add: r_def)
        have "b' ! nat ch ! nat (wp + i) = b1 ! nat ch ! nat (wp + i)"
          using f2(10)[of "nat (wp + i)"] lt L nlow by auto
        also have "\<dots> = g * data ! nat i"
          using f1(10)[OF lt] i True f1(3) by (simp add: nat_add_distrib) 
        finally show ?thesis by (simp add: m)
      next
        case False
        have "(wp + i) mod sz = ((wp + i - sz) + sz) mod sz" by simp
        also have "\<dots> = (wp + i - sz) mod sz" by (rule mod_add_self2)
        also have "\<dots> = wp + i - sz"
          using False i cap f1(4) f1(3) by (intro mod_pos_pos_trivial) (simp_all add: r_def)
        finally have m: "(wp + i) mod sz = i - r" by (simp add: r_def)
        have lt: "nat (i - r) < length (b1 ! nat ch)" using f2(5) i False by linarith
        have "b' ! nat ch ! nat (i - r) = g * drop (nat r) data ! nat (i - r)"
          using f2(10)[OF lt] i False by simp
        also have "drop (nat r) data ! nat (i - r) = data ! nat i"
        proof -
          have "nat r + nat (i - r) = nat i" using f1(4) False by linarith
          moreover have "nat r \<le> length data" using f1(6) by linarith
          ultimately show ?thesis by (metis nth_drop)
        qed
        finally show ?thesis by (simp add: m)
      qed
    qed
    have 2: "\<And>j. 0 \<le> j \<Longrightarrow> j < int (length (b ! nat ch)) \<Longrightarrow>
           (\<forall>i. 0 \<le> i \<and> i < len \<longrightarrow> j \<noteq> (wp + i) mod sz) \<Longrightarrow>
           b' ! nat ch ! nat j = b ! nat ch ! nat j"
    proof -
      fix j :: int assume j: "0 \<le> j" "j < int (length (b ! nat ch))"
        and nw: "\<forall>i. 0 \<le> i \<and> i < len \<longrightarrow> j \<noteq> (wp + i) mod sz"
      have n2: "\<not> nat j < nat (len - r)"
      proof
        assume "nat j < nat (len - r)"
        then have a: "0 \<le> j + r \<and> j + r < len" using j f1(4) by linarith
        have "(wp + (j + r)) mod sz = (j + sz) mod sz" by (simp add: r_def)
        also have "\<dots> = j mod sz" by (rule mod_add_self2)
        also have "\<dots> = j" using j a cap f1(4) by (intro mod_pos_pos_trivial) simp_all
        finally have e: "(wp + (j + r)) mod sz = j" .
        from nw have "0 \<le> j + r \<and> j + r < len \<longrightarrow> j \<noteq> (wp + (j + r)) mod sz" by (rule spec)
        with a e show False by simp
      qed
      have n1: "\<not> (nat wp \<le> nat j \<and> nat j < nat wp + nat r)"
      proof
        assume "nat wp \<le> nat j \<and> nat j < nat wp + nat r"
        then have a: "0 \<le> j - wp \<and> j - wp < r" using j f1(3,4) by linarith
        then have l: "j - wp < len" using False by (simp add: r_def)
        have e: "(wp + (j - wp)) mod sz = j" using a j by (simp add: r_def)
        from nw have "0 \<le> j - wp \<and> j - wp < len \<longrightarrow> j \<noteq> (wp + (j - wp)) mod sz" by (rule spec)
        with a l e show False by simp
      qed
      have lt: "nat j < length (b ! nat ch)" using j by linarith
      have "b' ! nat ch ! nat j = b1 ! nat ch ! nat j"
        using f2(10)[of "nat j"] lt L n2 by auto
      also have "\<dots> = b ! nat ch ! nat j" using f1(10)[OF lt] n1 by auto
      finally show "b' ! nat ch ! nat j = b ! nat ch ! nat j" .
    qed
    have 3: "0 \<le> len" using f1(4) f2(4) by linarith
    have 4: "len \<le> int (length data)" using f2(6) f1(4,6) by simp
    have 6: "wp \<le> sz" using f1(4) by (simp add: r_def)
    have 7: "length b' = length b" using f1(7) f2(7) by simp
    have 8: "length (b' ! nat ch) = length (b ! nat ch)" using f1(8) f2(8) by simp
    have 9: "\<And>c. c \<noteq> nat ch \<Longrightarrow> b' ! c = b ! c" using f1(9) f2(9) by simp
    show ?thesis
      by (intro conjI allI impI) (fact 7 8 3 4 6 f1(3) | erule 9 | erule (1) 1 | erule (2) 2)+
  qed
  then show "length b' = length b"
    and "length (b' ! nat ch) = length (b ! nat ch)"
    and "\<And>c. c \<noteq> nat ch \<Longrightarrow> b' ! c = b ! c"
    and "\<And>i. 0 \<le> i \<Longrightarrow> i < len \<Longrightarrow> b' ! nat ch ! nat ((wp + i) mod sz) = g * data ! nat i"
    and "\<And>j. 0 \<le> j \<Longrightarrow> j < int (length (b ! nat ch)) \<Longrightarrow>
           (\<forall>i. 0 \<le> i \<and> i < len \<longrightarrow> j \<noteq> (wp + i) mod sz) \<Longrightarrow>
           b' ! nat ch ! nat j = b ! nat ch ! nat j"
    and "0 \<le> wp" and "0 \<le> len" and "len \<le> int (length data)"
    and "wp \<le> sz"
    by blast+
qed

section \<open>The modulators\<close>

lemma fdiv_Inr: "fdiv x y = Inr z \<longleftrightarrow> y \<noteq> 0 \<and> z = x / y"
  by (auto simp: fdiv_def)

lemma fdiv_Inl: "fdiv x y = Inl e \<longleftrightarrow> y = 0 \<and> e = DivisionByZero"
  by (auto simp: fdiv_def)

lemma c_rem_Inr: "c_rem a b = Inr r \<longleftrightarrow> b \<noteq> 0 \<and> r = trem a b"
  by (auto simp: c_rem_def)

lemma lfo_sinewave_Inr:
  "lfo_sinewave m ch s = Inr (v, s') \<longleftrightarrow>
     0 \<le> ch \<and> ch < int (length (sinePhase s)) \<and> sampleRate s \<noteq> 0
     \<and> v = real_of_int (tdiv m 2)
           * (sin (2 * pi * wrap_phase (sinePhase s ! nat ch + sinefrequency s / sampleRate s)) + 1)
     \<and> s' = s\<lparr>sinePhase := (sinePhase s)
                  [nat ch := wrap_phase (sinePhase s ! nat ch + sinefrequency s / sampleRate s)]\<rparr>"
  by (auto simp: lfo_sinewave_def then_do_eq_Inr fdiv_Inr Let_def wrap_phase_def double_Pi_def)

lemma sawtooth1_Inr:
  "sawtooth1 m ch s = Inr (v, s') \<longleftrightarrow>
     sawtoothFrequency s \<noteq> 0 \<and> ps_sampleRate s \<noteq> 0
     \<and> 0 \<le> ch \<and> ch < int (length (sawtoothPhase1 s))
     \<and> v = (if pitchUporDown s
            then real_of_int m * (1 - wrap_phase (sawtoothPhase1 s ! nat ch + sawtoothFrequency s / ps_sampleRate s))
            else real_of_int m * wrap_phase (sawtoothPhase1 s ! nat ch + sawtoothFrequency s / ps_sampleRate s))
     \<and> s' = s\<lparr>sawtoothPhase1 := (sawtoothPhase1 s)
                  [nat ch := wrap_phase (sawtoothPhase1 s ! nat ch + sawtoothFrequency s / ps_sampleRate s)]\<rparr>"
  by (auto simp: sawtooth1_def then_do_eq_Inr fdiv_Inr Let_def wrap_phase_def)

lemma sawtooth2_Inr:
  "sawtooth2 m ch s = Inr (v, s') \<longleftrightarrow>
     sawtoothFrequency s \<noteq> 0 \<and> ps_sampleRate s \<noteq> 0
     \<and> 0 \<le> ch \<and> ch < int (length (sawtoothPhase2 s))
     \<and> v = (if pitchUporDown s
            then real_of_int m * (1 - wrap_phase (sawtoothPhase2 s ! nat ch + sawtoothFrequency s / ps_sampleRate s))
            else real_of_int m * wrap_phase (sawtoothPhase2 s ! nat ch + sawtoothFrequency s / ps_sampleRate s))
     \<and> s' = s\<lparr>sawtoothPhase2 := (sawtoothPhase2 s)
                  [nat ch := wrap_phase (sawtoothPhase2 s ! nat ch + sawtoothFrequency s / ps_sampleRate s)]\<rparr>"
  by (auto simp: sawtooth2_def then_do_eq_Inr fdiv_Inr Let_def wrap_phase_def)




section \<open>Block writes into the ring (fillDelaybuffer)\<close>

lemma fillDelaybuffer_body_succeeds:
  assumes "0 \<le> ch" "ch < int (length b)" "sz = int (length (b ! nat ch))"
    and "0 \<le> wp" "wp < sz" "0 \<le> len" "len \<le> sz" "len \<le> int (length data)"
  shows "\<exists>b'. fillDelaybuffer_body len ch sz data g wp b = Inr b'"
proof (cases "sz > len + wp")
  case True
  with assms show ?thesis
    by (simp add: fillDelaybuffer_body_def copyFromWithRamp_def)
next
  case False
  with assms show ?thesis
    by (simp add: fillDelaybuffer_body_def copyFromWithRamp_def Let_def)
qed

lemma Flanger_fillDelaybuffer_Inr:
  "Flanger_fillDelaybuffer len ch sz data g s = Inr s' \<longleftrightarrow>
     (\<exists>b. fillDelaybuffer_body len ch sz data g (delayBufferWritePosition s) (delayBuffer s) = Inr b
          \<and> s' = s\<lparr>delayBuffer := b\<rparr>)"
  by (auto simp: Flanger_fillDelaybuffer_def then_do_eq_Inr)

lemma PitchShifter_fillDelaybuffer_Inr:
  "PitchShifter_fillDelaybuffer len ch sz data g s = Inr s' \<longleftrightarrow>
     (\<exists>b. fillDelaybuffer_body len ch sz data g (ps_delayBufferWritePosition s) (ps_delayBuffer s) = Inr b
          \<and> s' = s\<lparr>ps_delayBuffer := b\<rparr>)"
  by (auto simp: PitchShifter_fillDelaybuffer_def then_do_eq_Inr)

text \<open>
  Claim C6. A block write whose length is at most the capacity \<open>delayBufferLength\<close>
  stores \<open>gain * samples[i]\<close> at the ring index \<open>(writePosition + i) mod capacity\<close> of
  the channel, for every \<open>i\<close> of the block, and changes no other cell of that channel and
  no other channel. This holds of \<^verbatim>\<open>Flanger::fillDelaybuffer\<close> and of
  \<^verbatim>\<open>PitchShifter::fillDelaybuffer\<close>. A run that ends strictly before the end of the
  buffer is one copy at the write cursor; otherwise there are two copies, the segment up to
  the end of the buffer and then the remainder at index 0 (the remainder is empty when the
  run ends exactly at the end of the buffer).
\<close>

theorem fillDelaybuffer_ring_write:
  assumes "bufferLength \<le> delayBufferLength"
  shows "(Flanger_fillDelaybuffer bufferLength channel delayBufferLength bufferData gain s = Inr s' \<longrightarrow>
            (\<forall>i. 0 \<le> i \<and> i < bufferLength \<longrightarrow>
                delayBuffer s' ! nat channel
                  ! nat ((delayBufferWritePosition s + i) mod delayBufferLength)
                = gain * bufferData ! nat i)
          \<and> (\<forall>j. 0 \<le> j \<and> j < int (length (delayBuffer s ! nat channel))
                \<and> (\<forall>i. 0 \<le> i \<and> i < bufferLength \<longrightarrow>
                       j \<noteq> (delayBufferWritePosition s + i) mod delayBufferLength) \<longrightarrow>
                delayBuffer s' ! nat channel ! nat j = delayBuffer s ! nat channel ! nat j)
          \<and> (\<forall>c. c \<noteq> nat channel \<longrightarrow> delayBuffer s' ! c = delayBuffer s ! c)
          \<and> length (delayBuffer s') = length (delayBuffer s)
          \<and> length (delayBuffer s' ! nat channel) = length (delayBuffer s ! nat channel))
       \<and> (PitchShifter_fillDelaybuffer bufferLength channel delayBufferLength bufferData gain t = Inr t' \<longrightarrow>
            (\<forall>i. 0 \<le> i \<and> i < bufferLength \<longrightarrow>
                ps_delayBuffer t' ! nat channel
                  ! nat ((ps_delayBufferWritePosition t + i) mod delayBufferLength)
                = gain * bufferData ! nat i)
          \<and> (\<forall>j. 0 \<le> j \<and> j < int (length (ps_delayBuffer t ! nat channel))
                \<and> (\<forall>i. 0 \<le> i \<and> i < bufferLength \<longrightarrow>
                       j \<noteq> (ps_delayBufferWritePosition t + i) mod delayBufferLength) \<longrightarrow>
                ps_delayBuffer t' ! nat channel ! nat j = ps_delayBuffer t ! nat channel ! nat j)
          \<and> (\<forall>c. c \<noteq> nat channel \<longrightarrow> ps_delayBuffer t' ! c = ps_delayBuffer t ! c)
          \<and> length (ps_delayBuffer t') = length (ps_delayBuffer t)
          \<and> length (ps_delayBuffer t' ! nat channel) = length (ps_delayBuffer t ! nat channel))
       \<and> (bufferLength + w < delayBufferLength \<longrightarrow>
            fillDelaybuffer_body bufferLength channel delayBufferLength bufferData gain w b
            = copyFromWithRamp b channel w bufferData bufferLength gain)
       \<and> (delayBufferLength \<le> bufferLength + w \<longrightarrow>
            fillDelaybuffer_body bufferLength channel delayBufferLength bufferData gain w b
            = then_do (copyFromWithRamp b channel w bufferData (delayBufferLength - w) gain)
                (\<lambda>b1. copyFromWithRamp b1 channel 0 (drop (nat (delayBufferLength - w)) bufferData)
                        (bufferLength - (delayBufferLength - w)) gain))"
proof -
  have A: "Flanger_fillDelaybuffer bufferLength channel delayBufferLength bufferData gain s = Inr s' \<longrightarrow>
    ((\<forall>i. 0 \<le> i \<and> i < bufferLength \<longrightarrow>
                delayBuffer s' ! nat channel
                  ! nat ((delayBufferWritePosition s + i) mod delayBufferLength)
                = gain * bufferData ! nat i)
          \<and> (\<forall>j. 0 \<le> j \<and> j < int (length (delayBuffer s ! nat channel))
                \<and> (\<forall>i. 0 \<le> i \<and> i < bufferLength \<longrightarrow>
                       j \<noteq> (delayBufferWritePosition s + i) mod delayBufferLength) \<longrightarrow>
                delayBuffer s' ! nat channel ! nat j = delayBuffer s ! nat channel ! nat j)
          \<and> (\<forall>c. c \<noteq> nat channel \<longrightarrow> delayBuffer s' ! c = delayBuffer s ! c)
          \<and> length (delayBuffer s') = length (delayBuffer s)
          \<and> length (delayBuffer s' ! nat channel) = length (delayBuffer s ! nat channel))"
  proof (rule impI)
    assume "Flanger_fillDelaybuffer bufferLength channel delayBufferLength bufferData gain s = Inr s'"
  then obtain b' where f: "fillDelaybuffer_body bufferLength channel delayBufferLength bufferData gain
       (delayBufferWritePosition s) (delayBuffer s) = Inr b'" and s': "s' = s\<lparr>delayBuffer := b'\<rparr>"
    unfolding Flanger_fillDelaybuffer_Inr by blast
  note c = fillDelaybuffer_body_content[OF f assms]
    show "(\<forall>i. 0 \<le> i \<and> i < bufferLength \<longrightarrow>
                delayBuffer s' ! nat channel
                  ! nat ((delayBufferWritePosition s + i) mod delayBufferLength)
                = gain * bufferData ! nat i)
          \<and> (\<forall>j. 0 \<le> j \<and> j < int (length (delayBuffer s ! nat channel))
                \<and> (\<forall>i. 0 \<le> i \<and> i < bufferLength \<longrightarrow>
                       j \<noteq> (delayBufferWritePosition s + i) mod delayBufferLength) \<longrightarrow>
                delayBuffer s' ! nat channel ! nat j = delayBuffer s ! nat channel ! nat j)
          \<and> (\<forall>c. c \<noteq> nat channel \<longrightarrow> delayBuffer s' ! c = delayBuffer s ! c)
          \<and> length (delayBuffer s') = length (delayBuffer s)
          \<and> length (delayBuffer s' ! nat channel) = length (delayBuffer s ! nat channel)"

    unfolding s' using c(1,2,3,4,5) by simp
  qed
  have B: "PitchShifter_fillDelaybuffer bufferLength channel delayBufferLength bufferData gain t = Inr t' \<longrightarrow>
    ((\<forall>i. 0 \<le> i \<and> i < bufferLength \<longrightarrow>
                ps_delayBuffer t' ! nat channel
                  ! nat ((ps_delayBufferWritePosition t + i) mod delayBufferLength)
                = gain * bufferData ! nat i)
          \<and> (\<forall>j. 0 \<le> j \<and> j < int (length (ps_delayBuffer t ! nat channel))
                \<and> (\<forall>i. 0 \<le> i \<and> i < bufferLength \<longrightarrow>
                       j \<noteq> (ps_delayBufferWritePosition t + i) mod delayBufferLength) \<longrightarrow>
                ps_delayBuffer t' ! nat channel ! nat j = ps_delayBuffer t ! nat channel ! nat j)
          \<and> (\<forall>c. c \<noteq> nat channel \<longrightarrow> ps_delayBuffer t' ! c = ps_delayBuffer t ! c)
          \<and> length (ps_delayBuffer t') = length (ps_delayBuffer t)
          \<and> length (ps_delayBuffer t' ! nat channel) = length (ps_delayBuffer t ! nat channel))"
  proof (rule impI)
    assume "PitchShifter_fillDelaybuffer bufferLength channel delayBufferLength bufferData gain t = Inr t'"
  then obtain b' where f: "fillDelaybuffer_body bufferLength channel delayBufferLength bufferData gain
       (ps_delayBufferWritePosition t) (ps_delayBuffer t) = Inr b'" and t': "t' = t\<lparr>ps_delayBuffer := b'\<rparr>"
    unfolding PitchShifter_fillDelaybuffer_Inr by blast
  note c = fillDelaybuffer_body_content[OF f assms]
    show "(\<forall>i. 0 \<le> i \<and> i < bufferLength \<longrightarrow>
                ps_delayBuffer t' ! nat channel
                  ! nat ((ps_delayBufferWritePosition t + i) mod delayBufferLength)
                = gain * bufferData ! nat i)
          \<and> (\<forall>j. 0 \<le> j \<and> j < int (length (ps_delayBuffer t ! nat channel))
                \<and> (\<forall>i. 0 \<le> i \<and> i < bufferLength \<longrightarrow>
                       j \<noteq> (ps_delayBufferWritePosition t + i) mod delayBufferLength) \<longrightarrow>
                ps_delayBuffer t' ! nat channel ! nat j = ps_delayBuffer t ! nat channel ! nat j)
          \<and> (\<forall>c. c \<noteq> nat channel \<longrightarrow> ps_delayBuffer t' ! c = ps_delayBuffer t ! c)
          \<and> length (ps_delayBuffer t') = length (ps_delayBuffer t)
          \<and> length (ps_delayBuffer t' ! nat channel) = length (ps_delayBuffer t ! nat channel)"

    unfolding t' using c(1,2,3,4,5) by simp
  qed
  have C: "bufferLength + w < delayBufferLength \<longrightarrow>
    (fillDelaybuffer_body bufferLength channel delayBufferLength bufferData gain w b
            = copyFromWithRamp b channel w bufferData bufferLength gain)"
  proof (rule impI)
    assume "bufferLength + w < delayBufferLength"
    then show "fillDelaybuffer_body bufferLength channel delayBufferLength bufferData gain w b
            = copyFromWithRamp b channel w bufferData bufferLength gain"

    by (simp add: fillDelaybuffer_body_def)
  qed
  have D: "delayBufferLength \<le> bufferLength + w \<longrightarrow>
    (fillDelaybuffer_body bufferLength channel delayBufferLength bufferData gain w b
            = then_do (copyFromWithRamp b channel w bufferData (delayBufferLength - w) gain)
                (\<lambda>b1. copyFromWithRamp b1 channel 0 (drop (nat (delayBufferLength - w)) bufferData)
                        (bufferLength - (delayBufferLength - w)) gain))"
  proof (rule impI)
    assume "delayBufferLength \<le> bufferLength + w"
    then show "fillDelaybuffer_body bufferLength channel delayBufferLength bufferData gain w b
            = then_do (copyFromWithRamp b channel w bufferData (delayBufferLength - w) gain)
                (\<lambda>b1. copyFromWithRamp b1 channel 0 (drop (nat (delayBufferLength - w)) bufferData)
                        (bufferLength - (delayBufferLength - w)) gain)"

    by (simp add: fillDelaybuffer_body_def Let_def)
  qed
  show ?thesis by (intro conjI A B C D)
qed

lemma flanger_example_fill:
  "Flanger_fillDelaybuffer 2 0 4 [5, 7] 2 flanger_example
     = Inr (flanger_example\<lparr>delayBuffer := [[14, 2, 3, 10], [0, 0, 0, 0]]\<rparr>)"
  by (simp add: Flanger_fillDelaybuffer_def fillDelaybuffer_body_def copyFromWithRamp_def
      flanger_example_def)

lemma pitchshifter_example_fill:
  "PitchShifter_fillDelaybuffer 2 0 4 [5, 7] 2 pitchshifter_example
     = Inr (pitchshifter_example\<lparr>ps_delayBuffer := [[14, 2, 3, 10], [0, 0, 0, 0]]\<rparr>)"
  by (simp add: PitchShifter_fillDelaybuffer_def fillDelaybuffer_body_def copyFromWithRamp_def
      pitchshifter_example_def)

theorem fillDelaybuffer_ring_write_witness:
  "(2::int) \<le> 4
   \<and> Flanger_fillDelaybuffer 2 0 4 [5, 7] 2 flanger_example
       = Inr (flanger_example\<lparr>delayBuffer := [[14, 2, 3, 10], [0, 0, 0, 0]]\<rparr>)
   \<and> PitchShifter_fillDelaybuffer 2 0 4 [5, 7] 2 pitchshifter_example
       = Inr (pitchshifter_example\<lparr>ps_delayBuffer := [[14, 2, 3, 10], [0, 0, 0, 0]]\<rparr>)
   \<and> (2::int) + 1 < 4 \<and> (4::int) \<le> 2 + 3
   \<and> [[14, 2, 3, 10], [0, 0, 0, 0]] ! nat 0 ! nat ((3 + 0) mod 4) = 2 * [5, 7 :: real] ! nat 0
   \<and> [[14, 2, 3, 10], [0, 0, 0, 0]] ! nat 0 ! nat ((3 + 1) mod 4) = 2 * [5, 7 :: real] ! nat 1
   \<and> fillDelaybuffer_body 2 0 4 [5, 7] 2 1 [[1, 2, 3, 4], [0, 0, 0, 0]]
       = copyFromWithRamp [[1, 2, 3, 4], [0, 0, 0, 0]] 0 1 [5, 7] 2 2
   \<and> fillDelaybuffer_body 2 0 4 [5, 7] 2 3 [[1, 2, 3, 4], [0, 0, 0, 0]]
       = then_do (copyFromWithRamp [[1, 2, 3, 4], [0, 0, 0, 0]] 0 3 [5, 7] (4 - 3) 2)
           (\<lambda>b1. copyFromWithRamp b1 0 0 (drop (nat (4 - 3)) [5, 7]) (2 - (4 - 3)) 2)"
proof -
  have h: "(2::int) \<le> 4" by simp
  have a: "(2::int) + 1 < 4" and b: "(4::int) \<le> 2 + 3" by simp_all
  note t1 = fillDelaybuffer_ring_write[OF h, of 0 "[5, 7]" 2 flanger_example
      "flanger_example\<lparr>delayBuffer := [[14, 2, 3, 10], [0, 0, 0, 0]]\<rparr>"
      pitchshifter_example
      "pitchshifter_example\<lparr>ps_delayBuffer := [[14, 2, 3, 10], [0, 0, 0, 0]]\<rparr>"
      1 "[[1, 2, 3, 4], [0, 0, 0, 0]]"]
  note t3 = fillDelaybuffer_ring_write[OF h, of 0 "[5, 7]" 2 flanger_example
      "flanger_example\<lparr>delayBuffer := [[14, 2, 3, 10], [0, 0, 0, 0]]\<rparr>"
      pitchshifter_example
      "pitchshifter_example\<lparr>ps_delayBuffer := [[14, 2, 3, 10], [0, 0, 0, 0]]\<rparr>"
      3 "[[1, 2, 3, 4], [0, 0, 0, 0]]"]
  from t1 flanger_example_fill have c:
    "\<forall>i. 0 \<le> i \<and> i < 2 \<longrightarrow>
         [[14, 2, 3, 10], [0, 0, 0, 0]] ! nat 0 ! nat ((3 + i) mod 4) = 2 * [5, 7 :: real] ! nat i"
    by (simp add: flanger_example_def)
  from c have
    "[[14, 2, 3, 10], [0, 0, 0, 0]] ! nat 0 ! nat ((3 + 0) mod 4) = 2 * [5, 7 :: real] ! nat 0"
    by (rule allE) simp
  moreover from c have
    "[[14, 2, 3, 10], [0, 0, 0, 0]] ! nat 0 ! nat ((3 + 1) mod 4) = 2 * [5, 7 :: real] ! nat 1"
    by (rule allE) simp
  moreover from t1 a have "fillDelaybuffer_body 2 0 4 [5, 7] 2 1 [[1, 2, 3, 4], [0, 0, 0, 0]]
       = copyFromWithRamp [[1, 2, 3, 4], [0, 0, 0, 0]] 0 1 [5, 7] 2 2" by blast
  moreover from t3 b have "fillDelaybuffer_body 2 0 4 [5, 7] 2 3 [[1, 2, 3, 4], [0, 0, 0, 0]]
       = then_do (copyFromWithRamp [[1, 2, 3, 4], [0, 0, 0, 0]] 0 3 [5, 7] (4 - 3) 2)
           (\<lambda>b1. copyFromWithRamp b1 0 0 (drop (nat (4 - 3)) [5, 7]) (2 - (4 - 3)) 2)" by blast
  ultimately show ?thesis
    using flanger_example_fill pitchshifter_example_fill by simp
qed

section \<open>Buffer accesses and ring indices\<close>


lemma setSample_Inr: "setSample b ch i v = Inr b' \<longleftrightarrow>
   0 \<le> ch \<and> ch < int (length b) \<and> 0 \<le> i \<and> i < int (length (b ! nat ch))
   \<and> b' = b[nat ch := (b ! nat ch)[nat i := v]]"
  by (auto simp: setSample_def)

lemma getReadPointer_Inr: "getReadPointer b ch i = Inr p \<longleftrightarrow>
   0 \<le> ch \<and> ch < int (length b) \<and> 0 \<le> i \<and> i < int (length (b ! nat ch)) \<and> p = (ch, i)"
  by (auto simp: getReadPointer_def)

lemma crossfade_gain_Inr: "crossfade_gain v m = Inr g \<longleftrightarrow> m \<noteq> 0 \<and> g = sin (pi * v / real_of_int m)"
  by (auto simp: crossfade_gain_def then_do_eq_Inr fdiv_Inr double_Pi_def)





section \<open>The loop of the pitch shifter\<close>


lemma assign_Inr: "assign b (ch, st) i v = Inr b' \<longleftrightarrow>
   0 \<le> ch \<and> ch < int (length b) \<and> 0 \<le> st + i \<and> st + i < int (length (b ! nat ch))
   \<and> b' = b[nat ch := (b ! nat ch)[nat (st + i) := v]]"
  by (auto simp: assign_def setSample_Inr)

lemma sawtooth1_frame:
  "sawtooth1 m ch s = Inr (v, s') \<Longrightarrow>
     ps_delayBuffer s' = ps_delayBuffer s \<and> ps_delayBufferWritePosition s' = ps_delayBufferWritePosition s
   \<and> sawtoothFrequency s' = sawtoothFrequency s \<and> ps_sampleRate s' = ps_sampleRate s
   \<and> pitchUporDown s' = pitchUporDown s \<and> sawtoothPhase2 s' = sawtoothPhase2 s
   \<and> ps_delayBufferSize s' = ps_delayBufferSize s \<and> ps_transposition_range s' = ps_transposition_range s
   \<and> length (sawtoothPhase1 s') = length (sawtoothPhase1 s)"
  by (auto simp: sawtooth1_Inr)

lemma sawtooth2_frame:
  "sawtooth2 m ch s = Inr (v, s') \<Longrightarrow>
     ps_delayBuffer s' = ps_delayBuffer s \<and> ps_delayBufferWritePosition s' = ps_delayBufferWritePosition s
   \<and> sawtoothFrequency s' = sawtoothFrequency s \<and> ps_sampleRate s' = ps_sampleRate s
   \<and> pitchUporDown s' = pitchUporDown s \<and> sawtoothPhase1 s' = sawtoothPhase1 s
   \<and> ps_delayBufferSize s' = ps_delayBufferSize s \<and> ps_transposition_range s' = ps_transposition_range s
   \<and> length (sawtoothPhase2 s') = length (sawtoothPhase2 s)"
  by (auto simp: sawtooth2_Inr)

lemma PitchShifter_process_sample_Inr:
  assumes "PitchShifter_process_sample st m ch g wb sz k (inb, s) = Inr (inb', s')"
  shows "\<exists>v1 s1 v2 x1 x2.
      sawtooth1 m ch s = Inr (v1, s1) \<and> sawtooth2 m ch s1 = Inr (v2, s')
    \<and> sz \<noteq> 0 \<and> m \<noteq> 0
    \<and> getReadPointer (ps_delayBuffer s) ch st = Inr (ch, st)
    \<and> deref (ps_delayBuffer s) (ch, st)
         (trem (trem (sz + ps_delayBufferWritePosition s - static_cast_int v1) sz + k) sz) = Inr x1
    \<and> deref (ps_delayBuffer s) (ch, st)
         (trem (trem (sz + ps_delayBufferWritePosition s - static_cast_int v2) sz + k) sz) = Inr x2
    \<and> assign inb wb k (g * (sin (pi * v1 / real_of_int m) * x1 + sin (pi * v2 / real_of_int m) * x2))
         = Inr inb'"
proof -
  from assms obtain delay r1 r2 rp1 rp2 g1 g2 i1 x1 i2 x2 where
    d: "getReadPointer (ps_delayBuffer s) ch st = Inr delay"
    and r1: "sawtooth1 m ch s = Inr r1" and r2: "sawtooth2 m ch (snd r1) = Inr r2"
    and rp1: "c_rem (sz + ps_delayBufferWritePosition (snd r2) - static_cast_int (fst r1)) sz = Inr rp1"
    and rp2: "c_rem (sz + ps_delayBufferWritePosition (snd r2) - static_cast_int (fst r2)) sz = Inr rp2"
    and g1: "crossfade_gain (fst r1) m = Inr g1" and g2: "crossfade_gain (fst r2) m = Inr g2"
    and i1: "c_rem (rp1 + k) sz = Inr i1" and x1: "deref (ps_delayBuffer (snd r2)) delay i1 = Inr x1"
    and i2: "c_rem (rp2 + k) sz = Inr i2" and x2: "deref (ps_delayBuffer (snd r2)) delay i2 = Inr x2"
    and a: "assign inb wb k (g * (g1 * x1 + g2 * x2)) = Inr inb'" and s': "s' = snd r2"
    unfolding PitchShifter_process_sample_def Let_def then_do_eq_Inr fst_conv snd_conv
    by blast
  obtain v1 s1 where R1: "r1 = (v1, s1)" by (cases r1)
  obtain v2 where R2: "r2 = (v2, s')" using s' by (cases r2) simp
  note f1 = sawtooth1_frame[OF r1[unfolded R1]]
  note f2 = sawtooth2_frame[OF r2[unfolded R1 R2 snd_conv]]
  have dl: "delay = (ch, st)" using d by (simp add: getReadPointer_Inr)
  show ?thesis
    using d r1 r2 rp1 rp2 g1 g2 i1 x1 i2 x2 a f1 f2
    unfolding R1 R2 dl fst_conv snd_conv c_rem_Inr crossfade_gain_Inr
    by (intro exI[of _ v1] exI[of _ s1] exI[of _ v2] exI[of _ x1] exI[of _ x2]) simp
qed


text \<open>What one iteration leaves unchanged.\<close>

lemma PitchShifter_process_sample_frame:
  assumes "PitchShifter_process_sample st m ch g wb sz k (inb, s) = Inr (inb', s')"
  shows "ps_delayBuffer s' = ps_delayBuffer s"
    and "ps_delayBufferWritePosition s' = ps_delayBufferWritePosition s"
    and "sawtoothFrequency s' = sawtoothFrequency s" and "ps_sampleRate s' = ps_sampleRate s"
    and "pitchUporDown s' = pitchUporDown s"
    and "ps_delayBufferSize s' = ps_delayBufferSize s"
    and "ps_transposition_range s' = ps_transposition_range s"
    and "\<exists>v. 0 \<le> fst wb \<and> fst wb < int (length inb) \<and> 0 \<le> snd wb + k
           \<and> snd wb + k < int (length (inb ! nat (fst wb)))
           \<and> inb' = inb[nat (fst wb) := (inb ! nat (fst wb))[nat (snd wb + k) := v]]"
proof -
  from PitchShifter_process_sample_Inr[OF assms] obtain v1 s1 v2 x1 x2 where
    a: "sawtooth1 m ch s = Inr (v1, s1)" and b: "sawtooth2 m ch s1 = Inr (v2, s')"
    and w: "assign inb wb k (g * (sin (pi * v1 / real_of_int m) * x1 + sin (pi * v2 / real_of_int m) * x2))
         = Inr inb'" by blast
  note f1 = sawtooth1_frame[OF a] and f2 = sawtooth2_frame[OF b]
  show "ps_delayBuffer s' = ps_delayBuffer s"
    and "ps_delayBufferWritePosition s' = ps_delayBufferWritePosition s"
    and "sawtoothFrequency s' = sawtoothFrequency s" and "ps_sampleRate s' = ps_sampleRate s"
    and "pitchUporDown s' = pitchUporDown s"
    and "ps_delayBufferSize s' = ps_delayBufferSize s"
    and "ps_transposition_range s' = ps_transposition_range s"
    using f1 f2 by simp_all
  obtain wc ws where wb: "wb = (wc, ws)" by (cases wb)
  from w show "\<exists>v. 0 \<le> fst wb \<and> fst wb < int (length inb) \<and> 0 \<le> snd wb + k
           \<and> snd wb + k < int (length (inb ! nat (fst wb)))
           \<and> inb' = inb[nat (fst wb) := (inb ! nat (fst wb))[nat (snd wb + k) := v]]"
    unfolding wb assign_Inr by auto
qed

lemma PitchShifter_process_loop_frame:
  assumes "PitchShifter_process_loop n st m ch g wb sz k (inb, s) = Inr (inb', s')" and "0 \<le> k"
  shows "ps_delayBuffer s' = ps_delayBuffer s
    \<and> ps_delayBufferWritePosition s' = ps_delayBufferWritePosition s
    \<and> sawtoothFrequency s' = sawtoothFrequency s \<and> ps_sampleRate s' = ps_sampleRate s
    \<and> pitchUporDown s' = pitchUporDown s
    \<and> ps_delayBufferSize s' = ps_delayBufferSize s
    \<and> ps_transposition_range s' = ps_transposition_range s
    \<and> length inb' = length inb
    \<and> (\<forall>c. length (inb' ! c) = length (inb ! c))
    \<and> (\<forall>c j. \<not> (c = nat (fst wb) \<and> nat (snd wb + k) \<le> j \<and> j < nat (snd wb + k) + n) \<longrightarrow>
           inb' ! c ! j = inb ! c ! j)"
  using assms
proof (induction n arbitrary: k inb s)
  case 0
  then show ?case by simp
next
  case (Suc n)
  from Suc.prems(1) obtain inb1 s1 where
    st: "PitchShifter_process_sample st m ch g wb sz k (inb, s) = Inr (inb1, s1)"
    and lp: "PitchShifter_process_loop n st m ch g wb sz (k + 1) (inb1, s1) = Inr (inb', s')"
    by (auto simp: then_do_eq_Inr)
  note f = PitchShifter_process_sample_frame[OF st]
  from f(8) obtain v where w: "0 \<le> fst wb" "fst wb < int (length inb)" "0 \<le> snd wb + k"
    "snd wb + k < int (length (inb ! nat (fst wb)))"
    "inb1 = inb[nat (fst wb) := (inb ! nat (fst wb))[nat (snd wb + k) := v]]" by blast
  have k1: "0 \<le> k + 1" using Suc.prems(2) by simp
  note ih = Suc.IH[OF lp k1]
  have l1: "length inb1 = length inb" by (simp add: w(5))
  have lt: "nat (fst wb) < length inb" using w(1,2) by linarith
  have l2: "\<And>c. length (inb1 ! c) = length (inb ! c)"
  proof -
    fix c show "length (inb1 ! c) = length (inb ! c)"
      using lt by (cases "c = nat (fst wb)") (simp_all add: w(5))
  qed
  have n1: "nat (snd wb + (k + 1)) = Suc (nat (snd wb + k))" using w(3) by simp
  have fr: "\<And>c j. \<not> (c = nat (fst wb) \<and> nat (snd wb + k) \<le> j \<and> j < nat (snd wb + k) + Suc n) \<Longrightarrow>
           inb' ! c ! j = inb ! c ! j"
  proof -
    fix c j assume nw: "\<not> (c = nat (fst wb) \<and> nat (snd wb + k) \<le> j \<and> j < nat (snd wb + k) + Suc n)"
    then have "\<not> (c = nat (fst wb) \<and> nat (snd wb + (k + 1)) \<le> j \<and> j < nat (snd wb + (k + 1)) + n)"
      unfolding n1 by linarith
    with ih have "inb' ! c ! j = inb1 ! c ! j" by blast
    also have "\<dots> = inb ! c ! j"
      using nw lt by (cases "c = nat (fst wb)") (auto simp: w(5) nth_list_update)
    finally show "inb' ! c ! j = inb ! c ! j" .
  qed
  show ?case using ih f(1-7) l1 l2 fr by simp
qed







lemma PitchShifter_process_Inr:
  "PitchShifter_process inb st n m ch g s = Inr R \<longleftrightarrow>
     (\<exists>s1. getReadPointer inb ch st = Inr (ch, st)
         \<and> PitchShifter_fillDelaybuffer (getNumSamples inb) ch (getNumSamples (ps_delayBuffer s))
              (pointee inb (ch, st)) 1 s = Inr s1
         \<and> PitchShifter_process_loop (nat n) st m ch g (ch, st) (getNumSamples (ps_delayBuffer s)) 0
              (inb, s1) = Inr R)"
  by (auto simp: PitchShifter_process_def getWritePointer_def then_do_eq_Inr Let_def
      getReadPointer_Inr)




lemma PitchShifter_process_frame:
  assumes "PitchShifter_process inb st n m ch g s = Inr (out, s')"
  shows "\<exists>b. fillDelaybuffer_body (getNumSamples inb) ch (getNumSamples (ps_delayBuffer s))
              (pointee inb (ch, st)) 1 (ps_delayBufferWritePosition s) (ps_delayBuffer s) = Inr b
       \<and> ps_delayBuffer s' = b"
    and "ps_delayBufferWritePosition s' = ps_delayBufferWritePosition s"
    and "sawtoothFrequency s' = sawtoothFrequency s" and "ps_sampleRate s' = ps_sampleRate s"
    and "pitchUporDown s' = pitchUporDown s"
    and "ps_delayBufferSize s' = ps_delayBufferSize s"
    and "ps_transposition_range s' = ps_transposition_range s"
    and "getReadPointer inb ch st = Inr (ch, st)"
proof -
  from assms obtain s1 where p: "getReadPointer inb ch st = Inr (ch, st)"
    and f: "PitchShifter_fillDelaybuffer (getNumSamples inb) ch (getNumSamples (ps_delayBuffer s))
              (pointee inb (ch, st)) 1 s = Inr s1"
    and l: "PitchShifter_process_loop (nat n) st m ch g (ch, st) (getNumSamples (ps_delayBuffer s)) 0
              (inb, s1) = Inr (out, s')"
    unfolding PitchShifter_process_Inr by blast
  from f obtain b where b: "fillDelaybuffer_body (getNumSamples inb) ch (getNumSamples (ps_delayBuffer s))
              (pointee inb (ch, st)) 1 (ps_delayBufferWritePosition s) (ps_delayBuffer s) = Inr b"
    and s1: "s1 = s\<lparr>ps_delayBuffer := b\<rparr>"
    unfolding PitchShifter_fillDelaybuffer_Inr by blast
  note fr = PitchShifter_process_loop_frame[OF l order_refl]
  show "\<exists>b. fillDelaybuffer_body (getNumSamples inb) ch (getNumSamples (ps_delayBuffer s))
              (pointee inb (ch, st)) 1 (ps_delayBufferWritePosition s) (ps_delayBuffer s) = Inr b
       \<and> ps_delayBuffer s' = b" using b fr s1 by simp
  show "ps_delayBufferWritePosition s' = ps_delayBufferWritePosition s"
    and "sawtoothFrequency s' = sawtoothFrequency s" and "ps_sampleRate s' = ps_sampleRate s"
    and "pitchUporDown s' = pitchUporDown s"
    and "ps_delayBufferSize s' = ps_delayBufferSize s"
    and "ps_transposition_range s' = ps_transposition_range s"
    using fr s1 by simp_all
  show "getReadPointer inb ch st = Inr (ch, st)" by (rule p)
qed


section \<open>Properties of the pitch shifter\<close>

lemmas eval_defs = getWritePointer_def getReadPointer_def getNumSamples_def
      fillDelaybuffer_body_def copyFromWithRamp_def pointee_def
      fdiv_def c_rem_def trem_def tdiv_def
      deref_def assign_def getSample_def setSample_def static_cast_int_def
      double_Pi_def TP_RANGE_def setSize_def clear_def Let_def

lemmas PitchShifter_eval = PitchShifter_process_def PitchShifter_fillDelaybuffer_def
      PitchShifter_process_sample_def sawtooth1_def sawtooth2_def crossfade_gain_def
      PitchShifter_initialize_def PitchShifter_new_def setLevel_def setUp_def setDown_def
      PitchShifter_adjustDelayBufferWritePosition_def

lemma pitchshifter_fresh_initialize:
  "PitchShifter_initialize 2 200 (PitchShifter_new 0 0) = Inr pitchshifter_fresh"
  by (simp add: PitchShifter_eval eval_defs pitchshifter_fresh_def eval_nat_numeral)

lemma pitchshifter_example_process:
  "PitchShifter_process [[5, 7], [0, 0]] 0 1 1 0 2 pitchshifter_example
   = Inr ([[10, 7], [0, 0]],
          pitchshifter_example\<lparr>sawtoothPhase1 := [1/2, 0], sawtoothPhase2 := [0, 1/2],
             ps_delayBuffer := [[7, 2, 3, 5], [0, 0, 0, 0]]\<rparr>)"
  by (simp add: PitchShifter_eval eval_defs pitchshifter_example_def)

lemma pitchshifter_example_process_0:
  "PitchShifter_process [[5, 7], [0, 0]] 0 0 1 0 2 pitchshifter_example
   = Inr ([[5, 7], [0, 0]], pitchshifter_example\<lparr>ps_delayBuffer := [[7, 2, 3, 5], [0, 0, 0, 0]]\<rparr>)"
  by (simp add: PitchShifter_eval eval_defs pitchshifter_example_def)














lemma PitchShifter_initialize_Inr:
  "PitchShifter_initialize spb sr s = Inr s' \<longleftrightarrow>
     0 \<le> spb + static_cast_int (TP_RANGE * sr)
     \<and> s' = s\<lparr>ps_transposition_range := static_cast_int (TP_RANGE * sr),
             ps_delayBufferSize := spb + static_cast_int (TP_RANGE * sr),
             ps_delayBuffer := replicate 2 (replicate (nat (spb + static_cast_int (TP_RANGE * sr))) 0)\<rparr>"
  by (auto simp: PitchShifter_initialize_def Let_def then_do_eq_Inr setSize_def clear_def)




lemma pitchshifter_fresh_adjust:
  "PitchShifter_adjustDelayBufferWritePosition 2 pitchshifter_fresh
     = Inr (pitchshifter_fresh\<lparr>ps_delayBufferWritePosition := 2\<rparr>)"
  by (simp add: PitchShifter_eval eval_defs pitchshifter_fresh_def eval_nat_numeral)









text \<open>
  Claim C10. Each advance of a sawtooth modulator first computes
  \<^verbatim>\<open>sampleRate / sawtoothFrequency\<close> and then \<^verbatim>\<open>1 / samplespercycle\<close>. The member
  \<^verbatim>\<open>sawtoothFrequency\<close> is 0 after the constructor and only \<^verbatim>\<open>setLevel\<close> assigns it.
  When it is positive (with the sample rate at its constant 44100) both divisions are
  defined, the increment being \<open>sawtoothFrequency / 44100\<close>, and no advance ends in
  \<open>DivisionByZero\<close>. When it is 0 every advance is a division by zero, and so is every call
  of \<^verbatim>\<open>process\<close> that reaches its loop with at least one sample to process.
\<close>

theorem sawtooth_division:
  "sawtoothFrequency (PitchShifter_new tr sz) = 0
   \<and> sawtoothFrequency (setLevel rate s) = rate
   \<and> sawtoothFrequency (setUp s) = sawtoothFrequency s
   \<and> sawtoothFrequency (setDown s) = sawtoothFrequency s
   \<and> (PitchShifter_initialize SamplesPerBlockExpected SampleRate s = Inr s3 \<longrightarrow>
       sawtoothFrequency s3 = sawtoothFrequency s)
   \<and> (PitchShifter_adjustDelayBufferWritePosition n s = Inr s4 \<longrightarrow>
       sawtoothFrequency s4 = sawtoothFrequency s)
   \<and> (0 < sawtoothFrequency s \<and> ps_sampleRate s = 44100 \<longrightarrow>
       fdiv (ps_sampleRate s) (sawtoothFrequency s) = Inr (44100 / sawtoothFrequency s)
       \<and> fdiv 1 (44100 / sawtoothFrequency s) = Inr (sawtoothFrequency s / 44100)
       \<and> sawtooth1 maxDelayInSamples channel s \<noteq> Inl DivisionByZero
       \<and> sawtooth2 maxDelayInSamples channel s \<noteq> Inl DivisionByZero)
   \<and> (sawtoothFrequency s = 0 \<longrightarrow>
       sawtooth1 maxDelayInSamples channel s = Inl DivisionByZero
       \<and> sawtooth2 maxDelayInSamples channel s = Inl DivisionByZero)
   \<and> (sawtoothFrequency s = 0 \<and> 0 < numSamples
        \<and> getReadPointer inbuffer channel startSample = Inr p
        \<and> PitchShifter_fillDelaybuffer (getNumSamples inbuffer) channel
             (getNumSamples (ps_delayBuffer s)) (pointee inbuffer p) 1 s = Inr s1
        \<and> getReadPointer (ps_delayBuffer s1) channel startSample = Inr q \<longrightarrow>
       PitchShifter_process inbuffer startSample numSamples maxDelayInSamples channel deviceGain s
         = Inl DivisionByZero)"
proof -
  have A: "sawtoothFrequency (PitchShifter_new tr sz) = 0"
    "sawtoothFrequency (setLevel rate s) = rate"
    "sawtoothFrequency (setUp s) = sawtoothFrequency s"
    "sawtoothFrequency (setDown s) = sawtoothFrequency s"
    by (simp_all add: PitchShifter_new_def setLevel_def setUp_def setDown_def)
  have B: "PitchShifter_initialize SamplesPerBlockExpected SampleRate s = Inr s3 \<longrightarrow>
       sawtoothFrequency s3 = sawtoothFrequency s"
    by (auto simp: PitchShifter_initialize_Inr)
  have C: "PitchShifter_adjustDelayBufferWritePosition n s = Inr s4 \<longrightarrow>
       sawtoothFrequency s4 = sawtoothFrequency s"
    by (auto simp: PitchShifter_adjustDelayBufferWritePosition_def then_do_eq_Inr)
  have D: "0 < sawtoothFrequency s \<and> ps_sampleRate s = 44100 \<longrightarrow>
       fdiv (ps_sampleRate s) (sawtoothFrequency s) = Inr (44100 / sawtoothFrequency s)
       \<and> fdiv 1 (44100 / sawtoothFrequency s) = Inr (sawtoothFrequency s / 44100)
       \<and> sawtooth1 maxDelayInSamples channel s \<noteq> Inl DivisionByZero
       \<and> sawtooth2 maxDelayInSamples channel s \<noteq> Inl DivisionByZero"
    by (auto simp: fdiv_def sawtooth1_def sawtooth2_def Let_def)
  have E: "sawtoothFrequency s = 0 \<longrightarrow>
       sawtooth1 maxDelayInSamples channel s = Inl DivisionByZero
       \<and> sawtooth2 maxDelayInSamples channel s = Inl DivisionByZero"
    by (simp add: fdiv_def sawtooth1_def sawtooth2_def)
  have F: "sawtoothFrequency s = 0 \<and> 0 < numSamples
        \<and> getReadPointer inbuffer channel startSample = Inr p
        \<and> PitchShifter_fillDelaybuffer (getNumSamples inbuffer) channel
             (getNumSamples (ps_delayBuffer s)) (pointee inbuffer p) 1 s = Inr s1
        \<and> getReadPointer (ps_delayBuffer s1) channel startSample = Inr q \<longrightarrow>
       PitchShifter_process inbuffer startSample numSamples maxDelayInSamples channel deviceGain s
         = Inl DivisionByZero"
  proof (rule impI)
    assume a: "sawtoothFrequency s = 0 \<and> 0 < numSamples
        \<and> getReadPointer inbuffer channel startSample = Inr p
        \<and> PitchShifter_fillDelaybuffer (getNumSamples inbuffer) channel
             (getNumSamples (ps_delayBuffer s)) (pointee inbuffer p) 1 s = Inr s1
        \<and> getReadPointer (ps_delayBuffer s1) channel startSample = Inr q"
    then have z: "sawtoothFrequency s = 0" and n: "0 < numSamples"
      and p: "getReadPointer inbuffer channel startSample = Inr p"
      and f: "PitchShifter_fillDelaybuffer (getNumSamples inbuffer) channel
             (getNumSamples (ps_delayBuffer s)) (pointee inbuffer p) 1 s = Inr s1"
      and q: "getReadPointer (ps_delayBuffer s1) channel startSample = Inr q" by simp_all
    from f z have z1: "sawtoothFrequency s1 = 0"
      unfolding PitchShifter_fillDelaybuffer_Inr by auto
    from n obtain k where k: "nat numSamples = Suc k" by (cases "nat numSamples") simp_all
    have "PitchShifter_process_sample startSample maxDelayInSamples channel deviceGain p
            (getNumSamples (ps_delayBuffer s)) 0 (inbuffer, s1) = Inl DivisionByZero"
      using q z1 by (simp add: PitchShifter_process_sample_def sawtooth1_def fdiv_def)
    then show "PitchShifter_process inbuffer startSample numSamples maxDelayInSamples channel
         deviceGain s = Inl DivisionByZero"
      using p f by (simp add: PitchShifter_process_def getWritePointer_def k)
  qed
  show ?thesis by (intro conjI A B C D E F)
qed

lemma pitchshifter_fresh_fill:
  "PitchShifter_fillDelaybuffer (getNumSamples [[5, 7], [0, 0]]) 0
     (getNumSamples (ps_delayBuffer pitchshifter_fresh)) (pointee [[5, 7], [0, 0]] (0, 0)) 1
     pitchshifter_fresh
   = Inr (pitchshifter_fresh\<lparr>ps_delayBuffer := [[5, 7, 0, 0], [0, 0, 0, 0]]\<rparr>)"
  by (simp add: PitchShifter_eval eval_defs pitchshifter_fresh_def)

theorem sawtooth_division_witness:
  "PitchShifter_initialize 2 200 (PitchShifter_new 0 0) = Inr pitchshifter_fresh
   \<and> sawtoothFrequency pitchshifter_fresh = sawtoothFrequency (PitchShifter_new 0 0)
   \<and> PitchShifter_adjustDelayBufferWritePosition 2 pitchshifter_fresh
       = Inr (pitchshifter_fresh\<lparr>ps_delayBufferWritePosition := 2\<rparr>)
   \<and> (0::real) < sawtoothFrequency pitchshifter_example \<and> ps_sampleRate pitchshifter_example = 44100
   \<and> fdiv 1 (44100 / sawtoothFrequency pitchshifter_example)
       = Inr (sawtoothFrequency pitchshifter_example / 44100)
   \<and> sawtooth1 1 0 pitchshifter_example \<noteq> Inl DivisionByZero
   \<and> sawtoothFrequency pitchshifter_fresh = 0 \<and> (0::int) < 2
   \<and> sawtooth1 3 0 pitchshifter_fresh = Inl DivisionByZero
   \<and> getReadPointer [[5, 7], [0, 0]] 0 0 = Inr (0, 0)
   \<and> PitchShifter_fillDelaybuffer (getNumSamples [[5, 7], [0, 0]]) 0
        (getNumSamples (ps_delayBuffer pitchshifter_fresh)) (pointee [[5, 7], [0, 0]] (0, 0)) 1
        pitchshifter_fresh
       = Inr (pitchshifter_fresh\<lparr>ps_delayBuffer := [[5, 7, 0, 0], [0, 0, 0, 0]]\<rparr>)
   \<and> getReadPointer (ps_delayBuffer (pitchshifter_fresh\<lparr>ps_delayBuffer := [[5, 7, 0, 0], [0, 0, 0, 0]]\<rparr>))
        0 0 = Inr (0, 0)
   \<and> PitchShifter_process [[5, 7], [0, 0]] 0 2 3 0 1 pitchshifter_fresh = Inl DivisionByZero"
proof -
  note t1 = sawtooth_division[where tr = 0 and sz = 0 and s = "PitchShifter_new 0 0"
      and SamplesPerBlockExpected = 2 and SampleRate = 200 and ?s3.0 = pitchshifter_fresh]
  note t2 = sawtooth_division[where tr = 0 and sz = 0 and s = pitchshifter_example
      and maxDelayInSamples = 1 and channel = 0]
  note t3 = sawtooth_division[where tr = 0 and sz = 0 and s = pitchshifter_fresh
      and n = 2 and ?s4.0 = "pitchshifter_fresh\<lparr>ps_delayBufferWritePosition := 2\<rparr>"
      and maxDelayInSamples = 3 and channel = 0 and numSamples = 2
      and inbuffer = "[[5, 7], [0, 0]]" and startSample = 0 and p = "(0, 0)"
      and ?s1.0 = "pitchshifter_fresh\<lparr>ps_delayBuffer := [[5, 7, 0, 0], [0, 0, 0, 0]]\<rparr>"
      and q = "(0, 0)" and deviceGain = 1]
  have f: "(0::real) < sawtoothFrequency pitchshifter_example"
    "ps_sampleRate pitchshifter_example = 44100" "sawtoothFrequency pitchshifter_fresh = 0"
    by (simp_all add: pitchshifter_example_def pitchshifter_fresh_def)
  have p: "getReadPointer [[5, 7], [0, 0]] 0 0 = Inr (0, 0)"
    "getReadPointer (ps_delayBuffer (pitchshifter_fresh\<lparr>ps_delayBuffer := [[5, 7, 0, 0], [0, 0, 0, 0]]\<rparr>))
        0 0 = Inr (0, 0)"
    by (simp_all add: getReadPointer_def)
  from t1 pitchshifter_fresh_initialize
  have 1: "sawtoothFrequency pitchshifter_fresh = sawtoothFrequency (PitchShifter_new 0 0)" by blast
  from t2 f(1,2) have 2: "fdiv 1 (44100 / sawtoothFrequency pitchshifter_example)
       = Inr (sawtoothFrequency pitchshifter_example / 44100)"
    "sawtooth1 1 0 pitchshifter_example \<noteq> Inl DivisionByZero" by blast+
  from t3 f(3) have 3: "sawtooth1 3 0 pitchshifter_fresh = Inl DivisionByZero" by blast
  have n: "(0::int) < 2" by simp
  from t3 f(3) n p pitchshifter_fresh_fill
  have 4: "PitchShifter_process [[5, 7], [0, 0]] 0 2 3 0 1 pitchshifter_fresh = Inl DivisionByZero"
    by blast
  show ?thesis
    by (intro conjI pitchshifter_fresh_initialize 1 pitchshifter_fresh_adjust f 2 3 n p
        pitchshifter_fresh_fill 4)
qed

section \<open>The loop of the flanger\<close>

lemma lfo_sinewave_frame:
  "lfo_sinewave m ch s = Inr (v, s') \<Longrightarrow>
     delayBuffer s' = delayBuffer s \<and> feedbackBuffer s' = feedbackBuffer s
   \<and> delayBufferWritePosition s' = delayBufferWritePosition s
   \<and> feedbackBufferWritePosition s' = feedbackBufferWritePosition s
   \<and> sinefrequency s' = sinefrequency s \<and> sampleRate s' = sampleRate s
   \<and> flangerDepth s' = flangerDepth s \<and> feedbackLevel s' = feedbackLevel s
   \<and> delayBufferSize s' = delayBufferSize s \<and> transposition_range s' = transposition_range s"
  by (auto simp: lfo_sinewave_Inr)

lemma blend_Inr:
  "blend b (ch, st) f i1 i2 = Inr y \<longleftrightarrow>
     (\<exists>x1 x2. deref b (ch, st) i1 = Inr x1 \<and> deref b (ch, st) i2 = Inr x2
        \<and> y = (1 - f) * x1 + f * x2)"
  by (auto simp: blend_def then_do_eq_Inr)

lemma Flanger_process_sample_Inr:
  assumes "Flanger_process_sample st m ch g wb rb sz k (inb, s) = Inr (inb', s')"
  shows "\<exists>v s1 w1 w2 f1 f2 output fb.
      lfo_sinewave m ch s = Inr (v, s1) \<and> sz \<noteq> 0
    \<and> getReadPointer (delayBuffer s) ch st = Inr (ch, st)
    \<and> getReadPointer (feedbackBuffer s) ch st = Inr (ch, st)
    \<and> deref (delayBuffer s) (ch, st)
         (trem (trem (sz + delayBufferWritePosition s - static_cast_int v) sz + k) sz) = Inr w1
    \<and> deref (delayBuffer s) (ch, st)
         (trem (trem (sz + delayBufferWritePosition s - (static_cast_int v + 1)) sz + k) sz) = Inr w2
    \<and> deref (feedbackBuffer s) (ch, st)
         (trem (trem (sz + delayBufferWritePosition s - static_cast_int v) sz + k) sz) = Inr f1
    \<and> deref (feedbackBuffer s) (ch, st)
         (trem (trem (sz + delayBufferWritePosition s - (static_cast_int v + 1)) sz + k) sz) = Inr f2
    \<and> (if feedbackLevel s = 0
        then \<exists>dry. deref inb rb k = Inr dry
               \<and> output = dry
                   + flangerDepth s * ((1 - (v - real_of_int (static_cast_int v))) * w1
                                       + (v - real_of_int (static_cast_int v)) * w2)
                   + feedbackLevel s * ((1 - (v - real_of_int (static_cast_int v))) * f1
                                       + (v - real_of_int (static_cast_int v)) * f2)
        else output = flangerDepth s * ((1 - (v - real_of_int (static_cast_int v))) * w1
                                       + (v - real_of_int (static_cast_int v)) * w2)
                   + feedbackLevel s * ((1 - (v - real_of_int (static_cast_int v))) * f1
                                       + (v - real_of_int (static_cast_int v)) * f2))
    \<and> setSample (feedbackBuffer s) ch (trem (feedbackBufferWritePosition s + k) sz) output = Inr fb
    \<and> assign inb wb k (g * output) = Inr inb'
    \<and> s' = s1\<lparr>feedbackBuffer := fb\<rparr>"
proof -
  from assms obtain delay feedback r rp1 rp2 i1 i2 wet fed outp fbpos fb where
    d: "getReadPointer (delayBuffer s) ch st = Inr delay"
    and fp: "getReadPointer (feedbackBuffer s) ch st = Inr feedback"
    and r: "lfo_sinewave m ch s = Inr r"
    and rp1: "c_rem (sz + delayBufferWritePosition (snd r) - static_cast_int (fst r)) sz = Inr rp1"
    and rp2: "c_rem (sz + delayBufferWritePosition (snd r) - static_cast_int (fst r) - 1) sz = Inr rp2"
    and i1: "c_rem (rp1 + k) sz = Inr i1" and i2: "c_rem (rp2 + k) sz = Inr i2"
    and wet: "blend (delayBuffer (snd r)) delay (fst r - real_of_int (static_cast_int (fst r))) i1 i2
              = Inr wet"
    and fed: "blend (feedbackBuffer (snd r)) feedback (fst r - real_of_int (static_cast_int (fst r))) i1 i2
              = Inr fed"
    and out: "(if feedbackLevel (snd r) = 0
               then then_do (deref inb rb k) (\<lambda>dry.
                      Inr (dry + flangerDepth (snd r) * wet + feedbackLevel (snd r) * fed))
               else Inr (flangerDepth (snd r) * wet + feedbackLevel (snd r) * fed)) = Inr outp"
    and fbpos: "c_rem (feedbackBufferWritePosition (snd r) + k) sz = Inr fbpos"
    and fb: "setSample (feedbackBuffer (snd r)) ch fbpos outp = Inr fb"
    and a: "assign inb wb k (g * outp) = Inr inb'"
    and s': "s' = (snd r)\<lparr>feedbackBuffer := fb\<rparr>"
    unfolding Flanger_process_sample_def Let_def then_do_eq_Inr fst_conv snd_conv
    by blast
  obtain v s1 where R: "r = (v, s1)" by (cases r)
  note f = lfo_sinewave_frame[OF r[unfolded R]]
  have dl: "delay = (ch, st)" using d by (simp add: getReadPointer_Inr)
  have fl: "feedback = (ch, st)" using fp by (simp add: getReadPointer_Inr)
  have e: "sz + delayBufferWritePosition s - static_cast_int v - 1
         = sz + delayBufferWritePosition s - (static_cast_int v + 1)" by simp
  from wet obtain w1 w2 where w1: "deref (delayBuffer s) (ch, st) i1 = Inr w1"
    and w2: "deref (delayBuffer s) (ch, st) i2 = Inr w2"
    and wv: "wet = (1 - (v - real_of_int (static_cast_int v))) * w1
                 + (v - real_of_int (static_cast_int v)) * w2"
    unfolding R dl fst_conv snd_conv blend_Inr using f by auto
  from fed obtain f1 f2 where f1: "deref (feedbackBuffer s) (ch, st) i1 = Inr f1"
    and f2: "deref (feedbackBuffer s) (ch, st) i2 = Inr f2"
    and fv: "fed = (1 - (v - real_of_int (static_cast_int v))) * f1
                 + (v - real_of_int (static_cast_int v)) * f2"
    unfolding R fl fst_conv snd_conv blend_Inr using f by auto
  have I1: "i1 = trem (trem (sz + delayBufferWritePosition s - static_cast_int v) sz + k) sz"
    and I2: "i2 = trem (trem (sz + delayBufferWritePosition s - (static_cast_int v + 1)) sz + k) sz"
    and sz0: "sz \<noteq> 0"
    using rp1 rp2 i1 i2 f unfolding R fst_conv snd_conv c_rem_Inr by (simp_all add: diff_diff_eq)
  have O: "if feedbackLevel s = 0
        then \<exists>dry. deref inb rb k = Inr dry
               \<and> outp = dry + flangerDepth s * wet + feedbackLevel s * fed
        else outp = flangerDepth s * wet + feedbackLevel s * fed"
    using out f unfolding R snd_conv by (auto simp: then_do_eq_Inr split: if_splits)
  have FB: "setSample (feedbackBuffer s) ch (trem (feedbackBufferWritePosition s + k) sz) outp = Inr fb"
    using fb fbpos f unfolding R snd_conv c_rem_Inr by simp
  show ?thesis
    apply (rule exI[of _ v], rule exI[of _ s1], rule exI[of _ w1], rule exI[of _ w2],
        rule exI[of _ f1], rule exI[of _ f2], rule exI[of _ outp], rule exI[of _ fb])
    using r[unfolded R] sz0 d[unfolded dl] fp[unfolded fl] w1[unfolded I1] w2[unfolded I2]
      f1[unfolded I1] f2[unfolded I2] O[unfolded wv fv] FB a s'[unfolded R snd_conv]
    by simp
qed


lemma Flanger_process_sample_frame:
  assumes "Flanger_process_sample st m ch g wb rb sz k (inb, s) = Inr (inb', s')"
  shows "delayBuffer s' = delayBuffer s"
    and "delayBufferWritePosition s' = delayBufferWritePosition s"
    and "feedbackBufferWritePosition s' = feedbackBufferWritePosition s"
    and "sinefrequency s' = sinefrequency s" and "sampleRate s' = sampleRate s"
    and "flangerDepth s' = flangerDepth s" and "feedbackLevel s' = feedbackLevel s"
    and "delayBufferSize s' = delayBufferSize s"
    and "transposition_range s' = transposition_range s"
    and "\<exists>v. 0 \<le> fst wb \<and> fst wb < int (length inb) \<and> 0 \<le> snd wb + k
           \<and> snd wb + k < int (length (inb ! nat (fst wb)))
           \<and> inb' = inb[nat (fst wb) := (inb ! nat (fst wb))[nat (snd wb + k) := v]]"
proof -
  from Flanger_process_sample_Inr[OF assms] obtain v s1 outp fb where
    a: "lfo_sinewave m ch s = Inr (v, s1)"
    and w: "assign inb wb k (g * outp) = Inr inb'" and s': "s' = s1\<lparr>feedbackBuffer := fb\<rparr>"
    by blast
  note f = lfo_sinewave_frame[OF a]
  show "delayBuffer s' = delayBuffer s"
    and "delayBufferWritePosition s' = delayBufferWritePosition s"
    and "feedbackBufferWritePosition s' = feedbackBufferWritePosition s"
    and "sinefrequency s' = sinefrequency s" and "sampleRate s' = sampleRate s"
    and "flangerDepth s' = flangerDepth s" and "feedbackLevel s' = feedbackLevel s"
    and "delayBufferSize s' = delayBufferSize s"
    and "transposition_range s' = transposition_range s"
    using f by (simp_all add: s')
  obtain wc ws where wb: "wb = (wc, ws)" by (cases wb)
  from w show "\<exists>v. 0 \<le> fst wb \<and> fst wb < int (length inb) \<and> 0 \<le> snd wb + k
           \<and> snd wb + k < int (length (inb ! nat (fst wb)))
           \<and> inb' = inb[nat (fst wb) := (inb ! nat (fst wb))[nat (snd wb + k) := v]]"
    unfolding wb assign_Inr by auto
qed

lemma Flanger_process_loop_frame:
  assumes "Flanger_process_loop n st m ch g wb rb sz k (inb, s) = Inr (inb', s')" and "0 \<le> k"
  shows "delayBuffer s' = delayBuffer s
    \<and> delayBufferWritePosition s' = delayBufferWritePosition s
    \<and> feedbackBufferWritePosition s' = feedbackBufferWritePosition s
    \<and> sinefrequency s' = sinefrequency s \<and> sampleRate s' = sampleRate s
    \<and> flangerDepth s' = flangerDepth s \<and> feedbackLevel s' = feedbackLevel s
    \<and> delayBufferSize s' = delayBufferSize s
    \<and> transposition_range s' = transposition_range s
    \<and> length inb' = length inb
    \<and> (\<forall>c. length (inb' ! c) = length (inb ! c))
    \<and> (\<forall>c j. \<not> (c = nat (fst wb) \<and> nat (snd wb + k) \<le> j \<and> j < nat (snd wb + k) + n) \<longrightarrow>
           inb' ! c ! j = inb ! c ! j)"
  using assms
proof (induction n arbitrary: k inb s)
  case 0
  then show ?case by simp
next
  case (Suc n)
  from Suc.prems(1) obtain inb1 s1 where
    st: "Flanger_process_sample st m ch g wb rb sz k (inb, s) = Inr (inb1, s1)"
    and lp: "Flanger_process_loop n st m ch g wb rb sz (k + 1) (inb1, s1) = Inr (inb', s')"
    by (auto simp: then_do_eq_Inr)
  note f = Flanger_process_sample_frame[OF st]
  from f(10) obtain v where w: "0 \<le> fst wb" "fst wb < int (length inb)" "0 \<le> snd wb + k"
    "snd wb + k < int (length (inb ! nat (fst wb)))"
    "inb1 = inb[nat (fst wb) := (inb ! nat (fst wb))[nat (snd wb + k) := v]]" by blast
  have k1: "0 \<le> k + 1" using Suc.prems(2) by simp
  note ih = Suc.IH[OF lp k1]
  have l1: "length inb1 = length inb" by (simp add: w(5))
  have lt: "nat (fst wb) < length inb" using w(1,2) by linarith
  have l2: "\<And>c. length (inb1 ! c) = length (inb ! c)"
  proof -
    fix c show "length (inb1 ! c) = length (inb ! c)"
      using lt by (cases "c = nat (fst wb)") (simp_all add: w(5))
  qed
  have n1: "nat (snd wb + (k + 1)) = Suc (nat (snd wb + k))" using w(3) by simp
  have fr: "\<And>c j. \<not> (c = nat (fst wb) \<and> nat (snd wb + k) \<le> j \<and> j < nat (snd wb + k) + Suc n) \<Longrightarrow>
           inb' ! c ! j = inb ! c ! j"
  proof -
    fix c j assume nw: "\<not> (c = nat (fst wb) \<and> nat (snd wb + k) \<le> j \<and> j < nat (snd wb + k) + Suc n)"
    then have "\<not> (c = nat (fst wb) \<and> nat (snd wb + (k + 1)) \<le> j \<and> j < nat (snd wb + (k + 1)) + n)"
      unfolding n1 by linarith
    with ih have "inb' ! c ! j = inb1 ! c ! j" by blast
    also have "\<dots> = inb ! c ! j"
      using nw lt by (cases "c = nat (fst wb)") (auto simp: w(5) nth_list_update)
    finally show "inb' ! c ! j = inb ! c ! j" .
  qed
  show ?case using ih f(1-9) l1 l2 fr by simp
qed

lemma Flanger_process_Inr:
  "Flanger_process inb st n m ch g s = Inr R \<longleftrightarrow>
     (\<exists>s1. getReadPointer inb ch st = Inr (ch, st)
         \<and> Flanger_fillDelaybuffer (getNumSamples inb) ch (getNumSamples (delayBuffer s))
              (pointee inb (ch, st)) 1 s = Inr s1
         \<and> Flanger_process_loop (nat n) st m ch g (ch, st) (ch, st) (getNumSamples (delayBuffer s)) 0
              (inb, s1) = Inr R)"
  by (auto simp: Flanger_process_def getWritePointer_def then_do_eq_Inr Let_def
      getReadPointer_Inr)


lemma Flanger_process_frame:
  assumes "Flanger_process inb st n m ch g s = Inr (out, s')"
  shows "\<exists>b. fillDelaybuffer_body (getNumSamples inb) ch (getNumSamples (delayBuffer s))
              (pointee inb (ch, st)) 1 (delayBufferWritePosition s) (delayBuffer s) = Inr b
       \<and> delayBuffer s' = b"
    and "delayBufferWritePosition s' = delayBufferWritePosition s"
    and "feedbackBufferWritePosition s' = feedbackBufferWritePosition s"
    and "sinefrequency s' = sinefrequency s" and "sampleRate s' = sampleRate s"
    and "flangerDepth s' = flangerDepth s" and "feedbackLevel s' = feedbackLevel s"
    and "delayBufferSize s' = delayBufferSize s"
    and "transposition_range s' = transposition_range s"
    and "getReadPointer inb ch st = Inr (ch, st)"
    and "length out = length inb"
    and "\<And>c. length (out ! c) = length (inb ! c)"
    and "\<And>c j. \<not> (c = nat ch \<and> nat st \<le> j \<and> j < nat st + nat n) \<Longrightarrow> out ! c ! j = inb ! c ! j"
proof -
  from assms obtain s1 where p: "getReadPointer inb ch st = Inr (ch, st)"
    and f: "Flanger_fillDelaybuffer (getNumSamples inb) ch (getNumSamples (delayBuffer s))
              (pointee inb (ch, st)) 1 s = Inr s1"
    and l: "Flanger_process_loop (nat n) st m ch g (ch, st) (ch, st) (getNumSamples (delayBuffer s)) 0
              (inb, s1) = Inr (out, s')"
    unfolding Flanger_process_Inr by blast
  from f obtain b where b: "fillDelaybuffer_body (getNumSamples inb) ch (getNumSamples (delayBuffer s))
              (pointee inb (ch, st)) 1 (delayBufferWritePosition s) (delayBuffer s) = Inr b"
    and s1: "s1 = s\<lparr>delayBuffer := b\<rparr>"
    unfolding Flanger_fillDelaybuffer_Inr by blast
  note fr = Flanger_process_loop_frame[OF l order_refl]
  show "\<exists>b. fillDelaybuffer_body (getNumSamples inb) ch (getNumSamples (delayBuffer s))
              (pointee inb (ch, st)) 1 (delayBufferWritePosition s) (delayBuffer s) = Inr b
       \<and> delayBuffer s' = b" using b fr s1 by simp
  show "delayBufferWritePosition s' = delayBufferWritePosition s"
    and "feedbackBufferWritePosition s' = feedbackBufferWritePosition s"
    and "sinefrequency s' = sinefrequency s" and "sampleRate s' = sampleRate s"
    and "flangerDepth s' = flangerDepth s" and "feedbackLevel s' = feedbackLevel s"
    and "delayBufferSize s' = delayBufferSize s"
    and "transposition_range s' = transposition_range s"
    using fr s1 by simp_all
  show "getReadPointer inb ch st = Inr (ch, st)" by (rule p)
  show "length out = length inb" using fr by blast
  show "\<And>c. length (out ! c) = length (inb ! c)" using fr by blast
  show "\<And>c j. \<not> (c = nat ch \<and> nat st \<le> j \<and> j < nat st + nat n) \<Longrightarrow> out ! c ! j = inb ! c ! j"
    using fr by simp
qed



section \<open>Properties of the flanger\<close>

lemmas Flanger_eval = Flanger_process_def Flanger_fillDelaybuffer_def
      Flanger_process_sample_def lfo_sinewave_def blend_def
      Flanger_initialize_def Flanger_new_def setLFO_def setDepth_def setFeedback_def
      Flanger_adjustDelayBufferWritePosition_def adjustFeedBackBufferWritePosition_def

lemma sin_2pi_12: "sin (2 * pi * (1/12)) = 1/2"
proof -
  have "2 * pi * (1/12) = pi / 6" by simp
  then show ?thesis by (simp only: sin_30)
qed

lemma flanger_example_process:
  "Flanger_process [[5, 7], [0, 0]] 0 1 2 0 2 flanger_example
   = Inr ([[25/2, 7], [0, 0]],
          flanger_example\<lparr>sinePhase := [1/12, 0], delayBuffer := [[7, 2, 3, 5], [0, 0, 0, 0]],
             feedbackBuffer := [[0, 0, 0, 25/4], [0, 0, 0, 0]]\<rparr>)"
  by (simp add: Flanger_eval eval_defs flanger_example_def sin_30)








lemma Flanger_initialize_Inr:
  "Flanger_initialize spb sr s = Inr s' \<longleftrightarrow>
     0 \<le> spb + static_cast_int (TP_RANGE * sr)
     \<and> s' = s\<lparr>transposition_range := static_cast_int (TP_RANGE * sr),
             delayBufferSize := spb + static_cast_int (TP_RANGE * sr),
             delayBuffer := replicate 2 (replicate (nat (spb + static_cast_int (TP_RANGE * sr))) 0),
             feedbackBuffer := replicate 2 (replicate (nat (spb + static_cast_int (TP_RANGE * sr))) 0)\<rparr>"
  by (auto simp: Flanger_initialize_def Let_def then_do_eq_Inr setSize_def clear_def)

lemma flanger_fresh_initialize:
  "Flanger_initialize 2 200 (setLFO 11025 (Flanger_new 0 0)) = Inr (setLFO 11025 flanger_fresh)"
  by (simp add: Flanger_eval eval_defs flanger_fresh_def eval_nat_numeral)

lemma flanger_fresh_lfo:
  "lfo_sinewave 3 0 (setLFO 11025 flanger_fresh)
     = Inr (2, (setLFO 11025 flanger_fresh)\<lparr>sinePhase := [1/4, 0]\<rparr>)"
  by (simp add: Flanger_eval eval_defs flanger_fresh_def)

lemma flanger_fresh_lfo_1:
  "lfo_sinewave 1 0 (setLFO 11025 flanger_fresh)
     = Inr (0, (setLFO 11025 flanger_fresh)\<lparr>sinePhase := [1/4, 0]\<rparr>)"
  by (simp add: Flanger_eval eval_defs flanger_fresh_def)

text \<open>
  Claim C3 at an odd \<^verbatim>\<open>maxDelayInSamples\<close>. The factor \<^verbatim>\<open>maxDelayInSamples/2\<close> is a
  division of two ints and truncates: with \<open>maxDelayInSamples = 3\<close> and the phase at the
  peak of the sine (phase 1/4 after the advance, \<open>sin (2 * pi * (1/4)) = 1\<close>) the modulator
  returns 2 and not 3, and with \<open>maxDelayInSamples = 1\<close> it returns 0 at the peak, as it does
  at every phase.
\<close>

theorem lfo_sinewave_odd_maxDelay:
  "Flanger_initialize 2 200 (setLFO 11025 (Flanger_new 0 0)) = Inr (setLFO 11025 flanger_fresh)
   \<and> lfo_sinewave 3 0 (setLFO 11025 flanger_fresh)
       = Inr (2, (setLFO 11025 flanger_fresh)\<lparr>sinePhase := [1/4, 0]\<rparr>)
   \<and> lfo_sinewave 1 0 (setLFO 11025 flanger_fresh)
       = Inr (0, (setLFO 11025 flanger_fresh)\<lparr>sinePhase := [1/4, 0]\<rparr>)
   \<and> sin (2 * pi * (1/4)) = 1
   \<and> tdiv 3 2 = 1 \<and> tdiv 1 2 = 0"
  using flanger_fresh_initialize flanger_fresh_lfo flanger_fresh_lfo_1
  by (simp add: tdiv_def)




text \<open>
  Claim C4. \<^verbatim>\<open>initialize\<close> assigns the transposition range, the buffer size and the
  buffers, all of them determined by \<open>SamplesPerBlockExpected\<close> and
  \<open>static_cast_int (TP_RANGE * SampleRate)\<close>, and nothing else: the member \<^verbatim>\<open>sampleRate\<close>,
  44100 after the constructor, keeps its value, as it does in the setters and in
  \<^verbatim>\<open>process\<close>. So after \<^verbatim>\<open>initialize\<close> with any \<open>SampleRate\<close>, an advance of the sine
  modulator or of a sawtooth modulator moves the phase by \<open>frequency / 44100\<close> (before the
  wrap), not by \<open>frequency / SampleRate\<close>.
\<close>

theorem initialize_keeps_sampleRate:
  "sampleRate (Flanger_new tr sz) = 44100 \<and> ps_sampleRate (PitchShifter_new tr sz) = 44100
   \<and> (Flanger_initialize SamplesPerBlockExpected SampleRate s = Inr s1 \<longrightarrow>
        sampleRate s1 = sampleRate s
        \<and> s1 = s\<lparr>transposition_range := static_cast_int (TP_RANGE * SampleRate),
             delayBufferSize := SamplesPerBlockExpected + static_cast_int (TP_RANGE * SampleRate),
             delayBuffer := replicate 2 (replicate
                (nat (SamplesPerBlockExpected + static_cast_int (TP_RANGE * SampleRate))) 0),
             feedbackBuffer := replicate 2 (replicate
                (nat (SamplesPerBlockExpected + static_cast_int (TP_RANGE * SampleRate))) 0)\<rparr>)
   \<and> (PitchShifter_initialize SamplesPerBlockExpected SampleRate t = Inr t1 \<longrightarrow>
        ps_sampleRate t1 = ps_sampleRate t
        \<and> t1 = t\<lparr>ps_transposition_range := static_cast_int (TP_RANGE * SampleRate),
             ps_delayBufferSize := SamplesPerBlockExpected + static_cast_int (TP_RANGE * SampleRate),
             ps_delayBuffer := replicate 2 (replicate
                (nat (SamplesPerBlockExpected + static_cast_int (TP_RANGE * SampleRate))) 0)\<rparr>)
   \<and> (sampleRate s = 44100
        \<and> Flanger_initialize SamplesPerBlockExpected SampleRate s = Inr s1
        \<and> lfo_sinewave maxDelayInSamples channel s1 = Inr (delayTime, s2) \<longrightarrow>
        sinePhase s2 ! nat channel
          = wrap_phase (sinePhase s1 ! nat channel + sinefrequency s1 / 44100))
   \<and> (ps_sampleRate t = 44100
        \<and> PitchShifter_initialize SamplesPerBlockExpected SampleRate t = Inr t1
        \<and> sawtooth1 maxDelayInSamples channel t1 = Inr (delaySamples1, t2) \<longrightarrow>
        sawtoothPhase1 t2 ! nat channel
          = wrap_phase (sawtoothPhase1 t1 ! nat channel + sawtoothFrequency t1 / 44100))
   \<and> (ps_sampleRate t = 44100
        \<and> PitchShifter_initialize SamplesPerBlockExpected SampleRate t = Inr t1
        \<and> sawtooth2 maxDelayInSamples channel t1 = Inr (delaySamples2, t3) \<longrightarrow>
        sawtoothPhase2 t3 ! nat channel
          = wrap_phase (sawtoothPhase2 t1 ! nat channel + sawtoothFrequency t1 / 44100))
   \<and> sampleRate (setDepth depth s) = sampleRate s
   \<and> sampleRate (setFeedback feedback s) = sampleRate s
   \<and> sampleRate (setLFO rate s) = sampleRate s
   \<and> ps_sampleRate (setUp t) = ps_sampleRate t \<and> ps_sampleRate (setDown t) = ps_sampleRate t
   \<and> ps_sampleRate (setLevel rate t) = ps_sampleRate t
   \<and> (Flanger_process inbuffer startSample numSamples maxDelayInSamples channel gain s
         = Inr (out, s4) \<longrightarrow> sampleRate s4 = sampleRate s)
   \<and> (PitchShifter_process inbuffer startSample numSamples maxDelayInSamples channel gain t
         = Inr (out', t4) \<longrightarrow> ps_sampleRate t4 = ps_sampleRate t)"
proof -
  have n: "\<And>xs (x::real). 0 \<le> channel \<Longrightarrow> channel < int (length xs) \<Longrightarrow>
             xs[nat channel := x] ! nat channel = x"
  proof -
    fix xs :: "real list" and x assume "0 \<le> channel" "channel < int (length xs)"
    then have "nat channel < length xs" by linarith
    then show "xs[nat channel := x] ! nat channel = x" by simp
  qed
  have A: "sampleRate (Flanger_new tr sz) = 44100" "ps_sampleRate (PitchShifter_new tr sz) = 44100"
    by (simp_all add: Flanger_new_def PitchShifter_new_def)
  have B: "Flanger_initialize SamplesPerBlockExpected SampleRate s = Inr s1 \<longrightarrow>
        sampleRate s1 = sampleRate s
        \<and> s1 = s\<lparr>transposition_range := static_cast_int (TP_RANGE * SampleRate),
             delayBufferSize := SamplesPerBlockExpected + static_cast_int (TP_RANGE * SampleRate),
             delayBuffer := replicate 2 (replicate
                (nat (SamplesPerBlockExpected + static_cast_int (TP_RANGE * SampleRate))) 0),
             feedbackBuffer := replicate 2 (replicate
                (nat (SamplesPerBlockExpected + static_cast_int (TP_RANGE * SampleRate))) 0)\<rparr>"
    by (auto simp: Flanger_initialize_Inr)
  have C: "PitchShifter_initialize SamplesPerBlockExpected SampleRate t = Inr t1 \<longrightarrow>
        ps_sampleRate t1 = ps_sampleRate t
        \<and> t1 = t\<lparr>ps_transposition_range := static_cast_int (TP_RANGE * SampleRate),
             ps_delayBufferSize := SamplesPerBlockExpected + static_cast_int (TP_RANGE * SampleRate),
             ps_delayBuffer := replicate 2 (replicate
                (nat (SamplesPerBlockExpected + static_cast_int (TP_RANGE * SampleRate))) 0)\<rparr>"
    by (auto simp: PitchShifter_initialize_Inr)
  have D: "sampleRate s = 44100
        \<and> Flanger_initialize SamplesPerBlockExpected SampleRate s = Inr s1
        \<and> lfo_sinewave maxDelayInSamples channel s1 = Inr (delayTime, s2) \<longrightarrow>
        sinePhase s2 ! nat channel
          = wrap_phase (sinePhase s1 ! nat channel + sinefrequency s1 / 44100)"
    by (auto simp: Flanger_initialize_Inr lfo_sinewave_Inr n)
  have E: "ps_sampleRate t = 44100
        \<and> PitchShifter_initialize SamplesPerBlockExpected SampleRate t = Inr t1
        \<and> sawtooth1 maxDelayInSamples channel t1 = Inr (delaySamples1, t2) \<longrightarrow>
        sawtoothPhase1 t2 ! nat channel
          = wrap_phase (sawtoothPhase1 t1 ! nat channel + sawtoothFrequency t1 / 44100)"
    by (auto simp: PitchShifter_initialize_Inr sawtooth1_Inr n)
  have F: "ps_sampleRate t = 44100
        \<and> PitchShifter_initialize SamplesPerBlockExpected SampleRate t = Inr t1
        \<and> sawtooth2 maxDelayInSamples channel t1 = Inr (delaySamples2, t3) \<longrightarrow>
        sawtoothPhase2 t3 ! nat channel
          = wrap_phase (sawtoothPhase2 t1 ! nat channel + sawtoothFrequency t1 / 44100)"
    by (auto simp: PitchShifter_initialize_Inr sawtooth2_Inr n)
  have G: "sampleRate (setDepth depth s) = sampleRate s"
    "sampleRate (setFeedback feedback s) = sampleRate s"
    "sampleRate (setLFO rate s) = sampleRate s"
    "ps_sampleRate (setUp t) = ps_sampleRate t" "ps_sampleRate (setDown t) = ps_sampleRate t"
    "ps_sampleRate (setLevel rate t) = ps_sampleRate t"
    by (simp_all add: setDepth_def setFeedback_def setLFO_def setUp_def setDown_def setLevel_def)
  have H: "Flanger_process inbuffer startSample numSamples maxDelayInSamples channel gain s
         = Inr (out, s4) \<longrightarrow> sampleRate s4 = sampleRate s"
    using Flanger_process_frame(5) by blast
  have I: "PitchShifter_process inbuffer startSample numSamples maxDelayInSamples channel gain t
         = Inr (out', t4) \<longrightarrow> ps_sampleRate t4 = ps_sampleRate t"
    using PitchShifter_process_frame(4) by blast
  show ?thesis by (intro conjI A B C D E F G H I)
qed

lemma pitchshifter_level_initialize:
  "PitchShifter_initialize 2 200 (setLevel 22050 (PitchShifter_new 0 0))
     = Inr (setLevel 22050 pitchshifter_fresh)"
  by (simp add: PitchShifter_eval eval_defs pitchshifter_fresh_def eval_nat_numeral)

lemma pitchshifter_level_sawtooth1:
  "sawtooth1 3 0 (setLevel 22050 pitchshifter_fresh)
     = Inr (3/2, (setLevel 22050 pitchshifter_fresh)\<lparr>sawtoothPhase1 := [1/2, 0]\<rparr>)"
  by (simp add: PitchShifter_eval eval_defs pitchshifter_fresh_def)

lemma pitchshifter_level_sawtooth2:
  "sawtooth2 3 0 (setLevel 22050 pitchshifter_fresh)
     = Inr (0, (setLevel 22050 pitchshifter_fresh)\<lparr>sawtoothPhase2 := [0, 1/2]\<rparr>)"
  by (simp add: PitchShifter_eval eval_defs pitchshifter_fresh_def)

theorem initialize_keeps_sampleRate_witness:
  "Flanger_initialize 2 200 (setLFO 11025 (Flanger_new 0 0)) = Inr (setLFO 11025 flanger_fresh)
   \<and> sampleRate (setLFO 11025 (Flanger_new 0 0)) = 44100
   \<and> sampleRate (setLFO 11025 flanger_fresh) = sampleRate (setLFO 11025 (Flanger_new 0 0))
   \<and> lfo_sinewave 3 0 (setLFO 11025 flanger_fresh)
       = Inr (2, (setLFO 11025 flanger_fresh)\<lparr>sinePhase := [1/4, 0]\<rparr>)
   \<and> sinePhase ((setLFO 11025 flanger_fresh)\<lparr>sinePhase := [1/4, 0]\<rparr>) ! nat 0
       = wrap_phase (sinePhase (setLFO 11025 flanger_fresh) ! nat 0
                     + sinefrequency (setLFO 11025 flanger_fresh) / 44100)
   \<and> PitchShifter_initialize 2 200 (setLevel 22050 (PitchShifter_new 0 0))
       = Inr (setLevel 22050 pitchshifter_fresh)
   \<and> ps_sampleRate (setLevel 22050 (PitchShifter_new 0 0)) = 44100
   \<and> ps_sampleRate (setLevel 22050 pitchshifter_fresh)
       = ps_sampleRate (setLevel 22050 (PitchShifter_new 0 0))
   \<and> sawtooth1 3 0 (setLevel 22050 pitchshifter_fresh)
       = Inr (3/2, (setLevel 22050 pitchshifter_fresh)\<lparr>sawtoothPhase1 := [1/2, 0]\<rparr>)
   \<and> sawtoothPhase1 ((setLevel 22050 pitchshifter_fresh)\<lparr>sawtoothPhase1 := [1/2, 0]\<rparr>) ! nat 0
       = wrap_phase (sawtoothPhase1 (setLevel 22050 pitchshifter_fresh) ! nat 0
                     + sawtoothFrequency (setLevel 22050 pitchshifter_fresh) / 44100)
   \<and> sawtooth2 3 0 (setLevel 22050 pitchshifter_fresh)
       = Inr (0, (setLevel 22050 pitchshifter_fresh)\<lparr>sawtoothPhase2 := [0, 1/2]\<rparr>)
   \<and> sawtoothPhase2 ((setLevel 22050 pitchshifter_fresh)\<lparr>sawtoothPhase2 := [0, 1/2]\<rparr>) ! nat 0
       = wrap_phase (sawtoothPhase2 (setLevel 22050 pitchshifter_fresh) ! nat 0
                     + sawtoothFrequency (setLevel 22050 pitchshifter_fresh) / 44100)
   \<and> Flanger_process [[5, 7], [0, 0]] 0 1 2 0 2 flanger_example
       = Inr ([[25/2, 7], [0, 0]],
          flanger_example\<lparr>sinePhase := [1/12, 0], delayBuffer := [[7, 2, 3, 5], [0, 0, 0, 0]],
             feedbackBuffer := [[0, 0, 0, 25/4], [0, 0, 0, 0]]\<rparr>)
   \<and> sampleRate (flanger_example\<lparr>sinePhase := [1/12, 0],
          delayBuffer := [[7, 2, 3, 5], [0, 0, 0, 0]],
          feedbackBuffer := [[0, 0, 0, 25/4], [0, 0, 0, 0]]\<rparr>) = sampleRate flanger_example
   \<and> PitchShifter_process [[5, 7], [0, 0]] 0 1 1 0 2 pitchshifter_example
       = Inr ([[10, 7], [0, 0]],
          pitchshifter_example\<lparr>sawtoothPhase1 := [1/2, 0], sawtoothPhase2 := [0, 1/2],
             ps_delayBuffer := [[7, 2, 3, 5], [0, 0, 0, 0]]\<rparr>)
   \<and> ps_sampleRate (pitchshifter_example\<lparr>sawtoothPhase1 := [1/2, 0], sawtoothPhase2 := [0, 1/2],
             ps_delayBuffer := [[7, 2, 3, 5], [0, 0, 0, 0]]\<rparr>) = ps_sampleRate pitchshifter_example"
proof -
  have r: "sampleRate (setLFO 11025 (Flanger_new 0 0)) = 44100"
    "ps_sampleRate (setLevel 22050 (PitchShifter_new 0 0)) = 44100"
    by (simp_all add: setLFO_def setLevel_def Flanger_new_def PitchShifter_new_def)
  note t1 = initialize_keeps_sampleRate[where tr = 0 and sz = 0
      and SamplesPerBlockExpected = 2 and SampleRate = 200
      and s = "setLFO 11025 (Flanger_new 0 0)" and ?s1.0 = "setLFO 11025 flanger_fresh"
      and t = "setLevel 22050 (PitchShifter_new 0 0)" and ?t1.0 = "setLevel 22050 pitchshifter_fresh"
      and maxDelayInSamples = 3 and channel = 0 and delayTime = 2
      and ?s2.0 = "(setLFO 11025 flanger_fresh)\<lparr>sinePhase := [1/4, 0]\<rparr>"
      and ?delaySamples1.0 = "3/2"
      and ?t2.0 = "(setLevel 22050 pitchshifter_fresh)\<lparr>sawtoothPhase1 := [1/2, 0]\<rparr>"
      and ?delaySamples2.0 = 0
      and ?t3.0 = "(setLevel 22050 pitchshifter_fresh)\<lparr>sawtoothPhase2 := [0, 1/2]\<rparr>"]
  note t2 = initialize_keeps_sampleRate[where tr = 0 and sz = 0
      and s = flanger_example and t = pitchshifter_example
      and inbuffer = "[[5, 7], [0, 0]]" and startSample = 0 and numSamples = 1
      and maxDelayInSamples = 2 and channel = 0 and gain = 2 and out = "[[25/2, 7], [0, 0]]"
      and ?s4.0 = "flanger_example\<lparr>sinePhase := [1/12, 0],
          delayBuffer := [[7, 2, 3, 5], [0, 0, 0, 0]],
          feedbackBuffer := [[0, 0, 0, 25/4], [0, 0, 0, 0]]\<rparr>"]
  note t3 = initialize_keeps_sampleRate[where tr = 0 and sz = 0
      and s = flanger_example and t = pitchshifter_example
      and inbuffer = "[[5, 7], [0, 0]]" and startSample = 0 and numSamples = 1
      and maxDelayInSamples = 1 and channel = 0 and gain = 2 and out' = "[[10, 7], [0, 0]]"
      and ?t4.0 = "pitchshifter_example\<lparr>sawtoothPhase1 := [1/2, 0], sawtoothPhase2 := [0, 1/2],
             ps_delayBuffer := [[7, 2, 3, 5], [0, 0, 0, 0]]\<rparr>"]
  from t1 flanger_fresh_initialize
  have 1: "sampleRate (setLFO 11025 flanger_fresh) = sampleRate (setLFO 11025 (Flanger_new 0 0))"
    by blast
  from t1 r(1) flanger_fresh_initialize flanger_fresh_lfo
  have 2: "sinePhase ((setLFO 11025 flanger_fresh)\<lparr>sinePhase := [1/4, 0]\<rparr>) ! nat 0
       = wrap_phase (sinePhase (setLFO 11025 flanger_fresh) ! nat 0
                     + sinefrequency (setLFO 11025 flanger_fresh) / 44100)" by blast
  from t1 pitchshifter_level_initialize
  have 3: "ps_sampleRate (setLevel 22050 pitchshifter_fresh)
       = ps_sampleRate (setLevel 22050 (PitchShifter_new 0 0))" by blast
  from t1 r(2) pitchshifter_level_initialize pitchshifter_level_sawtooth1
  have 4: "sawtoothPhase1 ((setLevel 22050 pitchshifter_fresh)\<lparr>sawtoothPhase1 := [1/2, 0]\<rparr>) ! nat 0
       = wrap_phase (sawtoothPhase1 (setLevel 22050 pitchshifter_fresh) ! nat 0
                     + sawtoothFrequency (setLevel 22050 pitchshifter_fresh) / 44100)" by blast
  from t1 r(2) pitchshifter_level_initialize pitchshifter_level_sawtooth2
  have 5: "sawtoothPhase2 ((setLevel 22050 pitchshifter_fresh)\<lparr>sawtoothPhase2 := [0, 1/2]\<rparr>) ! nat 0
       = wrap_phase (sawtoothPhase2 (setLevel 22050 pitchshifter_fresh) ! nat 0
                     + sawtoothFrequency (setLevel 22050 pitchshifter_fresh) / 44100)" by blast
  from t2 flanger_example_process
  have 6: "sampleRate (flanger_example\<lparr>sinePhase := [1/12, 0],
          delayBuffer := [[7, 2, 3, 5], [0, 0, 0, 0]],
          feedbackBuffer := [[0, 0, 0, 25/4], [0, 0, 0, 0]]\<rparr>) = sampleRate flanger_example"
    by blast
  from t3 pitchshifter_example_process
  have 7: "ps_sampleRate (pitchshifter_example\<lparr>sawtoothPhase1 := [1/2, 0], sawtoothPhase2 := [0, 1/2],
             ps_delayBuffer := [[7, 2, 3, 5], [0, 0, 0, 0]]\<rparr>) = ps_sampleRate pitchshifter_example"
    by blast
  show ?thesis
    by (intro conjI flanger_fresh_initialize r 1 flanger_fresh_lfo 2 pitchshifter_level_initialize
        3 pitchshifter_level_sawtooth1 4 pitchshifter_level_sawtooth2 5 flanger_example_process 6
        pitchshifter_example_process 7)
qed

section \<open>The write cursors\<close>

text \<open>
  Claim C9. \<^verbatim>\<open>fillDelaybuffer\<close> changes nothing but the contents of the delay buffer:
  the write cursor of the delay buffer, and in the flanger also the write cursor of the
  feedback buffer, are the same after the call, for every channel, block length and gain.
  Neither does \<^verbatim>\<open>process\<close>, which calls it, nor \<^verbatim>\<open>initialize\<close> nor any setter move a
  cursor. The cursors move in the \<^verbatim>\<open>adjust...WritePosition\<close> member functions only, to
  the old position plus the number of samples, reduced by \<^verbatim>\<open>%\<close> with the member
  \<^verbatim>\<open>delayBufferSize\<close>.
\<close>

theorem fillDelaybuffer_keeps_write_positions:
  "(Flanger_fillDelaybuffer bufferLength channel delayBufferLength bufferData gain s = Inr s1 \<longrightarrow>
       delayBufferWritePosition s1 = delayBufferWritePosition s
     \<and> feedbackBufferWritePosition s1 = feedbackBufferWritePosition s
     \<and> s1 = s\<lparr>delayBuffer := delayBuffer s1\<rparr>)
   \<and> (PitchShifter_fillDelaybuffer bufferLength channel delayBufferLength bufferData gain t = Inr t1 \<longrightarrow>
       ps_delayBufferWritePosition t1 = ps_delayBufferWritePosition t
     \<and> t1 = t\<lparr>ps_delayBuffer := ps_delayBuffer t1\<rparr>)
   \<and> (Flanger_adjustDelayBufferWritePosition n s = Inr s2 \<longrightarrow>
       delayBufferWritePosition s2 = trem (delayBufferWritePosition s + n) (delayBufferSize s)
     \<and> feedbackBufferWritePosition s2 = feedbackBufferWritePosition s)
   \<and> (adjustFeedBackBufferWritePosition n s = Inr s3 \<longrightarrow>
       feedbackBufferWritePosition s3
         = trem (feedbackBufferWritePosition s + n) (delayBufferSize s)
     \<and> delayBufferWritePosition s3 = delayBufferWritePosition s)
   \<and> (PitchShifter_adjustDelayBufferWritePosition n t = Inr t2 \<longrightarrow>
       ps_delayBufferWritePosition t2
         = trem (ps_delayBufferWritePosition t + n) (ps_delayBufferSize t))
   \<and> (Flanger_process inbuffer startSample numSamples maxDelayInSamples channel gain s
         = Inr (out, s4) \<longrightarrow>
       delayBufferWritePosition s4 = delayBufferWritePosition s
     \<and> feedbackBufferWritePosition s4 = feedbackBufferWritePosition s)
   \<and> (PitchShifter_process inbuffer startSample numSamples maxDelayInSamples channel gain t
         = Inr (out', t4) \<longrightarrow>
       ps_delayBufferWritePosition t4 = ps_delayBufferWritePosition t)
   \<and> (Flanger_initialize SamplesPerBlockExpected SampleRate s = Inr s5 \<longrightarrow>
       delayBufferWritePosition s5 = delayBufferWritePosition s
     \<and> feedbackBufferWritePosition s5 = feedbackBufferWritePosition s)
   \<and> (PitchShifter_initialize SamplesPerBlockExpected SampleRate t = Inr t5 \<longrightarrow>
       ps_delayBufferWritePosition t5 = ps_delayBufferWritePosition t)
   \<and> delayBufferWritePosition (setDepth depth s) = delayBufferWritePosition s
   \<and> feedbackBufferWritePosition (setDepth depth s) = feedbackBufferWritePosition s
   \<and> delayBufferWritePosition (setFeedback feedback s) = delayBufferWritePosition s
   \<and> feedbackBufferWritePosition (setFeedback feedback s) = feedbackBufferWritePosition s
   \<and> delayBufferWritePosition (setLFO rate s) = delayBufferWritePosition s
   \<and> feedbackBufferWritePosition (setLFO rate s) = feedbackBufferWritePosition s
   \<and> ps_delayBufferWritePosition (setUp t) = ps_delayBufferWritePosition t
   \<and> ps_delayBufferWritePosition (setDown t) = ps_delayBufferWritePosition t
   \<and> ps_delayBufferWritePosition (setLevel rate t) = ps_delayBufferWritePosition t"
proof -
  have A: "Flanger_fillDelaybuffer bufferLength channel delayBufferLength bufferData gain s = Inr s1 \<longrightarrow>
       delayBufferWritePosition s1 = delayBufferWritePosition s
     \<and> feedbackBufferWritePosition s1 = feedbackBufferWritePosition s
     \<and> s1 = s\<lparr>delayBuffer := delayBuffer s1\<rparr>"
    by (auto simp: Flanger_fillDelaybuffer_Inr)
  have B: "PitchShifter_fillDelaybuffer bufferLength channel delayBufferLength bufferData gain t = Inr t1 \<longrightarrow>
       ps_delayBufferWritePosition t1 = ps_delayBufferWritePosition t
     \<and> t1 = t\<lparr>ps_delayBuffer := ps_delayBuffer t1\<rparr>"
    by (auto simp: PitchShifter_fillDelaybuffer_Inr)
  have C: "Flanger_adjustDelayBufferWritePosition n s = Inr s2 \<longrightarrow>
       delayBufferWritePosition s2 = trem (delayBufferWritePosition s + n) (delayBufferSize s)
     \<and> feedbackBufferWritePosition s2 = feedbackBufferWritePosition s"
    by (auto simp: Flanger_adjustDelayBufferWritePosition_def then_do_eq_Inr c_rem_Inr)
  have D: "adjustFeedBackBufferWritePosition n s = Inr s3 \<longrightarrow>
       feedbackBufferWritePosition s3
         = trem (feedbackBufferWritePosition s + n) (delayBufferSize s)
     \<and> delayBufferWritePosition s3 = delayBufferWritePosition s"
    by (auto simp: adjustFeedBackBufferWritePosition_def then_do_eq_Inr c_rem_Inr)
  have E: "PitchShifter_adjustDelayBufferWritePosition n t = Inr t2 \<longrightarrow>
       ps_delayBufferWritePosition t2
         = trem (ps_delayBufferWritePosition t + n) (ps_delayBufferSize t)"
    by (auto simp: PitchShifter_adjustDelayBufferWritePosition_def then_do_eq_Inr c_rem_Inr)
  have F: "Flanger_process inbuffer startSample numSamples maxDelayInSamples channel gain s
         = Inr (out, s4) \<longrightarrow>
       delayBufferWritePosition s4 = delayBufferWritePosition s
     \<and> feedbackBufferWritePosition s4 = feedbackBufferWritePosition s"
    using Flanger_process_frame(2,3) by blast
  have G: "PitchShifter_process inbuffer startSample numSamples maxDelayInSamples channel gain t
         = Inr (out', t4) \<longrightarrow>
       ps_delayBufferWritePosition t4 = ps_delayBufferWritePosition t"
    using PitchShifter_process_frame(2) by blast
  have H: "Flanger_initialize SamplesPerBlockExpected SampleRate s = Inr s5 \<longrightarrow>
       delayBufferWritePosition s5 = delayBufferWritePosition s
     \<and> feedbackBufferWritePosition s5 = feedbackBufferWritePosition s"
    by (auto simp: Flanger_initialize_Inr)
  have I: "PitchShifter_initialize SamplesPerBlockExpected SampleRate t = Inr t5 \<longrightarrow>
       ps_delayBufferWritePosition t5 = ps_delayBufferWritePosition t"
    by (auto simp: PitchShifter_initialize_Inr)
  have J: "delayBufferWritePosition (setDepth depth s) = delayBufferWritePosition s"
    "feedbackBufferWritePosition (setDepth depth s) = feedbackBufferWritePosition s"
    "delayBufferWritePosition (setFeedback feedback s) = delayBufferWritePosition s"
    "feedbackBufferWritePosition (setFeedback feedback s) = feedbackBufferWritePosition s"
    "delayBufferWritePosition (setLFO rate s) = delayBufferWritePosition s"
    "feedbackBufferWritePosition (setLFO rate s) = feedbackBufferWritePosition s"
    "ps_delayBufferWritePosition (setUp t) = ps_delayBufferWritePosition t"
    "ps_delayBufferWritePosition (setDown t) = ps_delayBufferWritePosition t"
    "ps_delayBufferWritePosition (setLevel rate t) = ps_delayBufferWritePosition t"
    by (simp_all add: setDepth_def setFeedback_def setLFO_def setUp_def setDown_def setLevel_def)
  show ?thesis by (intro conjI A B C D E F G H I J)
qed

lemma flanger_example_adjust:
  "Flanger_adjustDelayBufferWritePosition 2 flanger_example
       = Inr (flanger_example\<lparr>delayBufferWritePosition := 1\<rparr>)"
  "adjustFeedBackBufferWritePosition 2 flanger_example
       = Inr (flanger_example\<lparr>feedbackBufferWritePosition := 1\<rparr>)"
  "PitchShifter_adjustDelayBufferWritePosition 2 pitchshifter_example
       = Inr (pitchshifter_example\<lparr>ps_delayBufferWritePosition := 1\<rparr>)"
  by (simp_all add: Flanger_eval PitchShifter_eval eval_defs flanger_example_def
      pitchshifter_example_def)

lemma flanger_fresh_initialize_plain:
  "Flanger_initialize 2 200 (Flanger_new 0 0) = Inr flanger_fresh"
  by (simp add: Flanger_eval eval_defs flanger_fresh_def eval_nat_numeral)

theorem fillDelaybuffer_keeps_write_positions_witness:
  "Flanger_fillDelaybuffer 2 0 4 [5, 7] 2 flanger_example
       = Inr (flanger_example\<lparr>delayBuffer := [[14, 2, 3, 10], [0, 0, 0, 0]]\<rparr>)
   \<and> delayBufferWritePosition (flanger_example\<lparr>delayBuffer := [[14, 2, 3, 10], [0, 0, 0, 0]]\<rparr>)
       = delayBufferWritePosition flanger_example
   \<and> feedbackBufferWritePosition (flanger_example\<lparr>delayBuffer := [[14, 2, 3, 10], [0, 0, 0, 0]]\<rparr>)
       = feedbackBufferWritePosition flanger_example
   \<and> PitchShifter_fillDelaybuffer 2 0 4 [5, 7] 2 pitchshifter_example
       = Inr (pitchshifter_example\<lparr>ps_delayBuffer := [[14, 2, 3, 10], [0, 0, 0, 0]]\<rparr>)
   \<and> ps_delayBufferWritePosition
         (pitchshifter_example\<lparr>ps_delayBuffer := [[14, 2, 3, 10], [0, 0, 0, 0]]\<rparr>)
       = ps_delayBufferWritePosition pitchshifter_example
   \<and> Flanger_adjustDelayBufferWritePosition 2 flanger_example
       = Inr (flanger_example\<lparr>delayBufferWritePosition := 1\<rparr>)
   \<and> delayBufferWritePosition (flanger_example\<lparr>delayBufferWritePosition := 1\<rparr>)
       = trem (delayBufferWritePosition flanger_example + 2) (delayBufferSize flanger_example)
   \<and> adjustFeedBackBufferWritePosition 2 flanger_example
       = Inr (flanger_example\<lparr>feedbackBufferWritePosition := 1\<rparr>)
   \<and> feedbackBufferWritePosition (flanger_example\<lparr>feedbackBufferWritePosition := 1\<rparr>)
       = trem (feedbackBufferWritePosition flanger_example + 2) (delayBufferSize flanger_example)
   \<and> PitchShifter_adjustDelayBufferWritePosition 2 pitchshifter_example
       = Inr (pitchshifter_example\<lparr>ps_delayBufferWritePosition := 1\<rparr>)
   \<and> ps_delayBufferWritePosition (pitchshifter_example\<lparr>ps_delayBufferWritePosition := 1\<rparr>)
       = trem (ps_delayBufferWritePosition pitchshifter_example + 2)
           (ps_delayBufferSize pitchshifter_example)
   \<and> Flanger_process [[5, 7], [0, 0]] 0 1 2 0 2 flanger_example
       = Inr ([[25/2, 7], [0, 0]],
          flanger_example\<lparr>sinePhase := [1/12, 0], delayBuffer := [[7, 2, 3, 5], [0, 0, 0, 0]],
             feedbackBuffer := [[0, 0, 0, 25/4], [0, 0, 0, 0]]\<rparr>)
   \<and> delayBufferWritePosition (flanger_example\<lparr>sinePhase := [1/12, 0],
          delayBuffer := [[7, 2, 3, 5], [0, 0, 0, 0]],
          feedbackBuffer := [[0, 0, 0, 25/4], [0, 0, 0, 0]]\<rparr>)
       = delayBufferWritePosition flanger_example
   \<and> PitchShifter_process [[5, 7], [0, 0]] 0 1 1 0 2 pitchshifter_example
       = Inr ([[10, 7], [0, 0]],
          pitchshifter_example\<lparr>sawtoothPhase1 := [1/2, 0], sawtoothPhase2 := [0, 1/2],
             ps_delayBuffer := [[7, 2, 3, 5], [0, 0, 0, 0]]\<rparr>)
   \<and> ps_delayBufferWritePosition (pitchshifter_example\<lparr>sawtoothPhase1 := [1/2, 0],
          sawtoothPhase2 := [0, 1/2], ps_delayBuffer := [[7, 2, 3, 5], [0, 0, 0, 0]]\<rparr>)
       = ps_delayBufferWritePosition pitchshifter_example
   \<and> Flanger_initialize 2 200 (Flanger_new 0 0) = Inr flanger_fresh
   \<and> delayBufferWritePosition flanger_fresh = delayBufferWritePosition (Flanger_new 0 0)
   \<and> PitchShifter_initialize 2 200 (PitchShifter_new 0 0) = Inr pitchshifter_fresh
   \<and> ps_delayBufferWritePosition pitchshifter_fresh
       = ps_delayBufferWritePosition (PitchShifter_new 0 0)"
proof -
  note t = fillDelaybuffer_keeps_write_positions[where bufferLength = 2 and channel = 0
      and delayBufferLength = 4 and bufferData = "[5, 7]" and gain = 2
      and s = flanger_example
      and ?s1.0 = "flanger_example\<lparr>delayBuffer := [[14, 2, 3, 10], [0, 0, 0, 0]]\<rparr>"
      and t = pitchshifter_example
      and ?t1.0 = "pitchshifter_example\<lparr>ps_delayBuffer := [[14, 2, 3, 10], [0, 0, 0, 0]]\<rparr>"
      and n = 2 and ?s2.0 = "flanger_example\<lparr>delayBufferWritePosition := 1\<rparr>"
      and ?s3.0 = "flanger_example\<lparr>feedbackBufferWritePosition := 1\<rparr>"
      and ?t2.0 = "pitchshifter_example\<lparr>ps_delayBufferWritePosition := 1\<rparr>"]
  note u = fillDelaybuffer_keeps_write_positions[where s = flanger_example
      and inbuffer = "[[5, 7], [0, 0]]" and startSample = 0 and numSamples = 1
      and maxDelayInSamples = 2 and channel = 0 and gain = 2 and out = "[[25/2, 7], [0, 0]]"
      and ?s4.0 = "flanger_example\<lparr>sinePhase := [1/12, 0],
          delayBuffer := [[7, 2, 3, 5], [0, 0, 0, 0]],
          feedbackBuffer := [[0, 0, 0, 25/4], [0, 0, 0, 0]]\<rparr>"]
  note v = fillDelaybuffer_keeps_write_positions[where t = pitchshifter_example
      and inbuffer = "[[5, 7], [0, 0]]" and startSample = 0 and numSamples = 1
      and maxDelayInSamples = 1 and channel = 0 and gain = 2 and out' = "[[10, 7], [0, 0]]"
      and ?t4.0 = "pitchshifter_example\<lparr>sawtoothPhase1 := [1/2, 0],
          sawtoothPhase2 := [0, 1/2], ps_delayBuffer := [[7, 2, 3, 5], [0, 0, 0, 0]]\<rparr>"]
  note w = fillDelaybuffer_keeps_write_positions[where s = "Flanger_new 0 0"
      and t = "PitchShifter_new 0 0" and SamplesPerBlockExpected = 2 and SampleRate = 200
      and ?s5.0 = flanger_fresh and ?t5.0 = pitchshifter_fresh]
  from t flanger_example_fill
  have 1: "delayBufferWritePosition (flanger_example\<lparr>delayBuffer := [[14, 2, 3, 10], [0, 0, 0, 0]]\<rparr>)
       = delayBufferWritePosition flanger_example"
    "feedbackBufferWritePosition (flanger_example\<lparr>delayBuffer := [[14, 2, 3, 10], [0, 0, 0, 0]]\<rparr>)
       = feedbackBufferWritePosition flanger_example" by blast+
  from t pitchshifter_example_fill
  have 2: "ps_delayBufferWritePosition
         (pitchshifter_example\<lparr>ps_delayBuffer := [[14, 2, 3, 10], [0, 0, 0, 0]]\<rparr>)
       = ps_delayBufferWritePosition pitchshifter_example" by blast
  from t flanger_example_adjust(1)
  have 3: "delayBufferWritePosition (flanger_example\<lparr>delayBufferWritePosition := 1\<rparr>)
       = trem (delayBufferWritePosition flanger_example + 2) (delayBufferSize flanger_example)"
    by blast
  from t flanger_example_adjust(2)
  have 4: "feedbackBufferWritePosition (flanger_example\<lparr>feedbackBufferWritePosition := 1\<rparr>)
       = trem (feedbackBufferWritePosition flanger_example + 2) (delayBufferSize flanger_example)"
    by blast
  from t flanger_example_adjust(3)
  have 5: "ps_delayBufferWritePosition (pitchshifter_example\<lparr>ps_delayBufferWritePosition := 1\<rparr>)
       = trem (ps_delayBufferWritePosition pitchshifter_example + 2)
           (ps_delayBufferSize pitchshifter_example)" by blast
  from u flanger_example_process
  have 6: "delayBufferWritePosition (flanger_example\<lparr>sinePhase := [1/12, 0],
          delayBuffer := [[7, 2, 3, 5], [0, 0, 0, 0]],
          feedbackBuffer := [[0, 0, 0, 25/4], [0, 0, 0, 0]]\<rparr>)
       = delayBufferWritePosition flanger_example" by blast
  from v pitchshifter_example_process
  have 7: "ps_delayBufferWritePosition (pitchshifter_example\<lparr>sawtoothPhase1 := [1/2, 0],
          sawtoothPhase2 := [0, 1/2], ps_delayBuffer := [[7, 2, 3, 5], [0, 0, 0, 0]]\<rparr>)
       = ps_delayBufferWritePosition pitchshifter_example" by blast
  note w8 = w[THEN conjunct2, THEN conjunct2, THEN conjunct2, THEN conjunct2, THEN conjunct2,
      THEN conjunct2, THEN conjunct2, THEN conjunct1]
  from w8 flanger_fresh_initialize_plain
  have 8: "delayBufferWritePosition flanger_fresh = delayBufferWritePosition (Flanger_new 0 0)"
    by simp
  note w9 = w[THEN conjunct2, THEN conjunct2, THEN conjunct2, THEN conjunct2, THEN conjunct2,
      THEN conjunct2, THEN conjunct2, THEN conjunct2, THEN conjunct1]
  from w9 pitchshifter_fresh_initialize
  have 9: "ps_delayBufferWritePosition pitchshifter_fresh
       = ps_delayBufferWritePosition (PitchShifter_new 0 0)" by simp
  show ?thesis
    by (intro conjI flanger_example_fill 1 pitchshifter_example_fill 2 flanger_example_adjust
        3 4 5 flanger_example_process 6 pitchshifter_example_process 7
        flanger_fresh_initialize_plain 8 pitchshifter_fresh_initialize 9)
qed

end
